theory Spec2Isabelle
  imports Complex_Main
begin

section \<open>Data model\<close>

text \<open>
  The program of \<^verbatim>\<open>etl.py\<close> is a batch job over data frames. A data frame is
  modelled as the list of its rows, a row as a record with one field per column, and a
  nullable column as an \<open>option\<close> (\<open>None\<close> is the SQL null). Strings are \<open>string\<close>,
  the long columns are \<open>int\<close>, and the double columns are \<open>real\<close>: the program only
  compares doubles for equality, and never computes with them.
\<close>

text \<open>
  A JSON document gives a key or does not give it, and a key it gives has a value or
  null. \<^verbatim>\<open>spark.read.json\<close> infers the columns of the frame from the documents:
  a column exists when some document gives its key, and the cell of a document that
  does not give the key is null.
\<close>

datatype 'a field = Absent | Given "'a option"

fun cell :: "'a field \<Rightarrow> 'a option" where
  "cell Absent = None"
| "cell (Given v) = v"

text \<open>One catalog document of \<^verbatim>\<open>song_data\<close>, with the keys the program uses.\<close>

record song_doc =
  cd_song_id :: "string field"
  cd_title :: "string field"
  cd_artist_id :: "string field"
  cd_year :: "int field"
  cd_duration :: "real field"
  cd_artist_name :: "string field"
  cd_artist_location :: "string field"
  cd_artist_latitude :: "real field"
  cd_artist_longitude :: "real field"

text \<open>One activity document of \<^verbatim>\<open>log_data\<close>, with the keys the program uses.\<close>

record log_doc =
  ld_userId :: "string field"
  ld_firstName :: "string field"
  ld_lastName :: "string field"
  ld_gender :: "string field"
  ld_level :: "string field"
  ld_page :: "string field"
  ld_ts :: "int field"
  ld_song :: "string field"
  ld_artist :: "string field"
  ld_length :: "real field"
  ld_sessionId :: "int field"
  ld_location :: "string field"
  ld_userAgent :: "string field"

text \<open>One row of the frame read from \<^verbatim>\<open>song_data\<close> (line 47).\<close>

record song_json =
  c_song_id :: "string option"
  c_title :: "string option"
  c_artist_id :: "string option"
  c_year :: "int option"
  c_duration :: "real option"
  c_artist_name :: "string option"
  c_artist_location :: "string option"
  c_artist_latitude :: "real option"
  c_artist_longitude :: "real option"

text \<open>One row of the frame read from \<^verbatim>\<open>log_data\<close> (line 89).\<close>

record log_json =
  l_userId :: "string option"
  l_firstName :: "string option"
  l_lastName :: "string option"
  l_gender :: "string option"
  l_level :: "string option"
  l_page :: "string option"
  l_ts :: "int option"
  l_song :: "string option"
  l_artist :: "string option"
  l_length :: "real option"
  l_sessionId :: "int option"
  l_location :: "string option"
  l_userAgent :: "string option"

record songs_row =
  s_song_id :: "string option"
  s_title :: "string option"
  s_artist_id :: "string option"
  s_year :: "int option"
  s_duration :: "real option"

record artists_row =
  a_artist_id :: "string option"
  a_name :: "string option"
  a_location :: "string option"
  a_latitude :: "real option"
  a_longitude :: "real option"

record users_row =
  u_user_id :: "string option"
  u_first_name :: "string option"
  u_last_name :: "string option"
  u_gender :: "string option"
  u_level :: "string option"

record time_row =
  t_start_time :: int
  t_hour :: int
  t_day :: int
  t_week :: int
  t_month :: int
  t_year :: int
  t_weekday :: string

text \<open>
  The activity frame after the two \<^verbatim>\<open>withColumn\<close> calls (lines 109 and 113): the
  original columns, the \<^verbatim>\<open>ts\<close> column replaced by the value of
  \<^verbatim>\<open>get_timestamp\<close>, and the new \<^verbatim>\<open>datetime\<close> column. A naive
  (zone-less) datetime is represented by its wall-clock reading, counted in seconds from
  the wall-clock reading 1970-01-01 00:00:00.
\<close>

record log_row =
  lr_src :: log_json
  lr_ts :: int
  lr_datetime :: int

text \<open>The frame \<^verbatim>\<open>song_df\<close> after the join of line 137.\<close>

record song_artist_row =
  sa_artist_id :: "string option"
  sa_song_id :: "string option"
  sa_title :: "string option"
  sa_year :: "int option"
  sa_duration :: "real option"
  sa_artist_name :: "string option"

text \<open>The columns selected on lines 150 to 161.\<close>

record songplays_row =
  sp_start_time :: int
  sp_user_id :: "string option"
  sp_level :: "string option"
  sp_song_id :: "string option"
  sp_artist_id :: "string option"
  sp_session_id :: "int option"
  sp_location :: "string option"
  sp_user_agent :: "string option"
  sp_month :: int
  sp_year :: int

datatype error = TypeError | ValueError | AnalysisException | AttributeError

section \<open>Data frame operations\<close>

text \<open>
  Column equality is three-valued: a comparison with null is null. \<^verbatim>\<open>filter\<close> and
  an inner \<^verbatim>\<open>join\<close> keep a row only when the condition is true.
\<close>

fun sql_eq :: "'a option \<Rightarrow> 'a option \<Rightarrow> bool option" where
  "sql_eq (Some x) (Some y) = Some (x = y)"
| "sql_eq _ _ = None"

fun sql_and :: "bool option \<Rightarrow> bool option \<Rightarrow> bool option" where
  "sql_and (Some False) _ = Some False"
| "sql_and _ (Some False) = Some False"
| "sql_and (Some True) (Some True) = Some True"
| "sql_and _ _ = None"

definition is_true :: "bool option \<Rightarrow> bool" where
  "is_true c = (c = Some True)"

text \<open>\<^verbatim>\<open>distinct()\<close>: one copy of every row; rows are compared column by column,
  null equal to null.\<close>

definition distinct_df :: "'a list \<Rightarrow> 'a list" where
  "distinct_df rows = remdups rows"

text \<open>An inner join: every pair of a left and a right row for which the condition is true.\<close>

definition inner_join ::
  "('a \<Rightarrow> 'b \<Rightarrow> bool option) \<Rightarrow> ('a \<Rightarrow> 'b \<Rightarrow> 'c) \<Rightarrow> 'a list \<Rightarrow> 'b list \<Rightarrow> 'c list" where
  "inner_join cond mk ls rs =
     concat (map (\<lambda>l. map (mk l) (filter (\<lambda>r. is_true (cond l r)) rs)) ls)"

section \<open>Calendar fields of a datetime\<close>

text \<open>
  The column functions \<^verbatim>\<open>hour\<close>, \<^verbatim>\<open>dayofmonth\<close>, \<^verbatim>\<open>weekofyear\<close>,
  \<^verbatim>\<open>month\<close>, \<^verbatim>\<open>year\<close> and \<^verbatim>\<open>date_format(_, 'E')\<close> belong to the
  data frame library. They read the fields of a wall-clock reading in the proleptic
  Gregorian calendar; \<^verbatim>\<open>weekofyear\<close> is the ISO 8601 week number and pattern
  \<^verbatim>\<open>E\<close> the abbreviated English day name.
\<close>

definition days_of :: "int \<Rightarrow> int" where
  "days_of w = w div 86400"

text \<open>Year, month and day of the day that lies \<open>z\<close> days after 1970-01-01.\<close>

definition civil_from_days :: "int \<Rightarrow> int \<times> int \<times> int" where
  "civil_from_days z0 =
     (let z = z0 + 719468;
          era = z div 146097;
          doe = z mod 146097;
          yoe = (doe - doe div 1460 + doe div 36524 - doe div 146096) div 365;
          doy = doe - (365 * yoe + yoe div 4 - yoe div 100);
          mp = (5 * doy + 2) div 153;
          d = doy - (153 * mp + 2) div 5 + 1;
          m = (if mp < 10 then mp + 3 else mp - 9);
          y = yoe + era * 400 + (if m \<le> 2 then 1 else 0)
      in (y, m, d))"

text \<open>The number of days from 1970-01-01 to the first of January of year \<open>y\<close>.\<close>

definition days_to_year :: "int \<Rightarrow> int" where
  "days_to_year y =
     (let p = y - 1 in 365 * p + p div 4 - p div 100 + p div 400 - 719162)"

definition hour :: "int \<Rightarrow> int" where
  "hour w = (w mod 86400) div 3600"

definition year :: "int \<Rightarrow> int" where
  "year w = fst (civil_from_days (days_of w))"

definition month :: "int \<Rightarrow> int" where
  "month w = fst (snd (civil_from_days (days_of w)))"

definition dayofmonth :: "int \<Rightarrow> int" where
  "dayofmonth w = snd (snd (civil_from_days (days_of w)))"

text \<open>Day of the week, 0 for Monday to 6 for Sunday; 1970-01-01 was a Thursday.\<close>

definition weekday_index :: "int \<Rightarrow> int" where
  "weekday_index w = (days_of w + 3) mod 7"

text \<open>The ISO week of a day is the week of the year that holds the Thursday of its week.\<close>

definition weekofyear :: "int \<Rightarrow> int" where
  "weekofyear w =
     (let thursday = days_of w - weekday_index w + 3;
          y = fst (civil_from_days thursday)
      in (thursday - days_to_year y) div 7 + 1)"

definition date_format_E :: "int \<Rightarrow> string" where
  "date_format_E w =
     [''Mon'', ''Tue'', ''Wed'', ''Thu'', ''Fri'', ''Sat'', ''Sun''] ! nat (weekday_index w)"

section \<open>Storage\<close>

text \<open>
  The object store maps a path to the data set kept there: the documents of an input,
  or the rows of a table. \<^verbatim>\<open>spark.read\<close> of a path that holds nothing, or that
  holds a data set of another kind, raises \<^verbatim>\<open>AnalysisException\<close>. A write in
  mode \<^verbatim>\<open>overwrite\<close> replaces what the path held. A table is taken to be read
  back as it was written, also in the partition columns \<^verbatim>\<open>year\<close> and
  \<^verbatim>\<open>artist_id\<close> of \<^verbatim>\<open>songs\<close>, whose values the library reads from the
  directory names. The field \<open>trace\<close> records the order of the reads and writes; the
  program does not inspect it.
\<close>

datatype dataset =
    SongData "song_doc list"
  | LogData "log_doc list"
  | SongsTable "songs_row list"
  | ArtistsTable "artists_row list"
  | UsersTable "users_row list"
  | TimeTable "time_row list"
  | SongplaysTable "songplays_row list"

datatype event = Read string | Write string

record state =
  files :: "string \<Rightarrow> dataset option"
  trace :: "event list"

text \<open>\<^verbatim>\<open>os.path.join(a, b)\<close> for a relative, non-empty \<open>b\<close>.\<close>

definition path_join :: "string \<Rightarrow> string \<Rightarrow> string" where
  "path_join a b = (if a = [] \<or> last a = CHR ''/'' then a @ b else a @ CHR ''/'' # b)"

definition spark_read :: "string \<Rightarrow> state \<Rightarrow> error + dataset \<times> state" where
  "spark_read p st =
     (case files st p of
        None \<Rightarrow> Inl AnalysisException
      | Some d \<Rightarrow> Inr (d, st\<lparr>trace := trace st @ [Read p]\<rparr>))"

definition spark_write :: "string \<Rightarrow> dataset \<Rightarrow> state \<Rightarrow> state" where
  "spark_write p d st = st\<lparr>files := (files st)(p \<mapsto> d), trace := trace st @ [Write p]\<rparr>"

text \<open>
  The columns \<^verbatim>\<open>spark.read.json\<close> infers (lines 47 and 89), and the row it reads
  from one document.
\<close>

definition song_data_columns :: "song_doc list \<Rightarrow> string list" where
  "song_data_columns docs =
     map fst (filter (\<lambda>(name, given). list_ex given docs)
       [(''song_id'', \<lambda>d. cd_song_id d \<noteq> Absent),
        (''title'', \<lambda>d. cd_title d \<noteq> Absent),
        (''artist_id'', \<lambda>d. cd_artist_id d \<noteq> Absent),
        (''year'', \<lambda>d. cd_year d \<noteq> Absent),
        (''duration'', \<lambda>d. cd_duration d \<noteq> Absent),
        (''artist_name'', \<lambda>d. cd_artist_name d \<noteq> Absent),
        (''artist_location'', \<lambda>d. cd_artist_location d \<noteq> Absent),
        (''artist_latitude'', \<lambda>d. cd_artist_latitude d \<noteq> Absent),
        (''artist_longitude'', \<lambda>d. cd_artist_longitude d \<noteq> Absent)])"

definition song_data_row :: "song_doc \<Rightarrow> song_json" where
  "song_data_row d =
     \<lparr>c_song_id = cell (cd_song_id d), c_title = cell (cd_title d),
      c_artist_id = cell (cd_artist_id d), c_year = cell (cd_year d),
      c_duration = cell (cd_duration d), c_artist_name = cell (cd_artist_name d),
      c_artist_location = cell (cd_artist_location d),
      c_artist_latitude = cell (cd_artist_latitude d),
      c_artist_longitude = cell (cd_artist_longitude d)\<rparr>"

definition log_data_columns :: "log_doc list \<Rightarrow> string list" where
  "log_data_columns docs =
     map fst (filter (\<lambda>(name, given). list_ex given docs)
       [(''userId'', \<lambda>d. ld_userId d \<noteq> Absent),
        (''firstName'', \<lambda>d. ld_firstName d \<noteq> Absent),
        (''lastName'', \<lambda>d. ld_lastName d \<noteq> Absent),
        (''gender'', \<lambda>d. ld_gender d \<noteq> Absent),
        (''level'', \<lambda>d. ld_level d \<noteq> Absent),
        (''page'', \<lambda>d. ld_page d \<noteq> Absent),
        (''ts'', \<lambda>d. ld_ts d \<noteq> Absent),
        (''song'', \<lambda>d. ld_song d \<noteq> Absent),
        (''artist'', \<lambda>d. ld_artist d \<noteq> Absent),
        (''length'', \<lambda>d. ld_length d \<noteq> Absent),
        (''sessionId'', \<lambda>d. ld_sessionId d \<noteq> Absent),
        (''location'', \<lambda>d. ld_location d \<noteq> Absent),
        (''userAgent'', \<lambda>d. ld_userAgent d \<noteq> Absent)])"

definition log_data_row :: "log_doc \<Rightarrow> log_json" where
  "log_data_row d =
     \<lparr>l_userId = cell (ld_userId d), l_firstName = cell (ld_firstName d),
      l_lastName = cell (ld_lastName d), l_gender = cell (ld_gender d),
      l_level = cell (ld_level d), l_page = cell (ld_page d), l_ts = cell (ld_ts d),
      l_song = cell (ld_song d), l_artist = cell (ld_artist d),
      l_length = cell (ld_length d), l_sessionId = cell (ld_sessionId d),
      l_location = cell (ld_location d), l_userAgent = cell (ld_userAgent d)\<rparr>"

text \<open>
  A frame resolves a list of column names when it has every one of them. A
  \<^verbatim>\<open>select\<close> or \<^verbatim>\<open>withColumn\<close> that names a column the frame does not have
  raises \<^verbatim>\<open>AnalysisException\<close> when it is called; an attribute such as
  \<^verbatim>\<open>df.page\<close> raises \<^verbatim>\<open>AttributeError\<close>.
\<close>

definition resolves :: "string list \<Rightarrow> string list \<Rightarrow> bool" where
  "resolves cols names = list_all (\<lambda>n. n \<in> set cols) names"

section \<open>The catalog pipeline: \<^verbatim>\<open>process_song_data\<close>\<close>

text \<open>Line 50: the columns selected for one row.\<close>

definition songs_columns :: "song_json \<Rightarrow> songs_row" where
  "songs_columns c =
     \<lparr>s_song_id = c_song_id c, s_title = c_title c, s_artist_id = c_artist_id c,
      s_year = c_year c, s_duration = c_duration c\<rparr>"

text \<open>Lines 50 to 52.\<close>

definition songs_table :: "song_json list \<Rightarrow> songs_row list" where
  "songs_table df = distinct_df (map songs_columns df)"

text \<open>Lines 60 to 64: the columns selected for one row.\<close>

definition artists_columns :: "song_json \<Rightarrow> artists_row" where
  "artists_columns c =
     \<lparr>a_artist_id = c_artist_id c, a_name = c_artist_name c,
      a_location = c_artist_location c, a_latitude = c_artist_latitude c,
      a_longitude = c_artist_longitude c\<rparr>"

text \<open>Lines 60 to 66.\<close>

definition artists_table :: "song_json list \<Rightarrow> artists_row list" where
  "artists_table df = distinct_df (map artists_columns df)"

text \<open>Lines 44 to 70. The select of line 50 is called before the first write, the
  select of line 60 after it.\<close>

definition process_song_data :: "string \<Rightarrow> string \<Rightarrow> state \<Rightarrow> error + state" where
  "process_song_data input_data output_data st =
     (case spark_read (path_join input_data ''song_data'') st of
        Inl e \<Rightarrow> Inl e
      | Inr (SongData docs, st1) \<Rightarrow>
          let cols = song_data_columns docs;
              df = map song_data_row docs
          in if \<not> resolves cols [''song_id'', ''title'', ''artist_id'', ''year'', ''duration'']
             then Inl AnalysisException
             else
               let st2 = spark_write (path_join output_data ''songs'')
                           (SongsTable (songs_table df)) st1
               in if \<not> resolves cols [''artist_id'', ''artist_name'', ''artist_location'',
                                        ''artist_latitude'', ''artist_longitude'']
                  then Inl AnalysisException
                  else Inr (spark_write (path_join output_data ''artists'')
                              (ArtistsTable (artists_table df)) st2)
      | Inr (_, _) \<Rightarrow> Inl AnalysisException)"

section \<open>The activity pipeline: \<^verbatim>\<open>process_log_data\<close>\<close>

text \<open>Line 92: \<^verbatim>\<open>df.filter(df.page == 'NextSong')\<close>.\<close>

definition next_song :: "log_json \<Rightarrow> bool" where
  "next_song l = is_true (sql_eq (l_page l) (Some ''NextSong''))"

text \<open>Lines 95 to 99: the columns selected for one row.\<close>

definition users_columns :: "log_json \<Rightarrow> users_row" where
  "users_columns l =
     \<lparr>u_user_id = l_userId l, u_first_name = l_firstName l, u_last_name = l_lastName l,
      u_gender = l_gender l, u_level = l_level l\<rparr>"

text \<open>Lines 95 to 101.\<close>

definition users_table :: "log_json list \<Rightarrow> users_row list" where
  "users_table df = distinct_df (map users_columns df)"

text \<open>
  Line 108: \<^verbatim>\<open>lambda ts: ts // 1000\<close>. Python's \<^verbatim>\<open>//\<close> is floor division,
  as \<open>div\<close> on \<open>int\<close> is. The lambda is called with \<^verbatim>\<open>None\<close> for a null
  \<^verbatim>\<open>ts\<close>, and \<^verbatim>\<open>None // 1000\<close> raises \<^verbatim>\<open>TypeError\<close>.
\<close>

definition get_timestamp :: "int option \<Rightarrow> error + int" where
  "get_timestamp ts = (case ts of None \<Rightarrow> Inl TypeError | Some t \<Rightarrow> Inr (t div 1000))"

text \<open>
  Line 112: \<^verbatim>\<open>lambda ts: datetime.fromtimestamp(ts)\<close>, the naive datetime of the
  instant in the local time zone of the host process. The zone is the parameter \<open>tz\<close>:
  \<open>tz s\<close> is the offset of local time from UTC, in seconds, at the instant \<open>s\<close>. A
  reading outside the years 1 to 9999 raises (\<^verbatim>\<open>ValueError\<close>, or on some
  platforms \<^verbatim>\<open>OverflowError\<close>; the model has one error for both). The column
  functions of lines 117 to 122 read the fields of this datetime back in the same zone.
\<close>

definition min_datetime :: int where
  "min_datetime = - 62135596800"

definition max_datetime :: int where
  "max_datetime = 253402300799"

definition get_datetime :: "(int \<Rightarrow> int) \<Rightarrow> int \<Rightarrow> error + int" where
  "get_datetime tz ts =
     (let w = ts + tz ts
      in if min_datetime \<le> w \<and> w \<le> max_datetime then Inr w else Inl ValueError)"

text \<open>
  Lines 109 and 113, for the whole frame. The two functions are evaluated when the
  frame is first written; an exception in any row aborts the job.
\<close>

fun with_columns :: "(int \<Rightarrow> int) \<Rightarrow> log_json list \<Rightarrow> error + log_row list" where
  "with_columns tz [] = Inr []"
| "with_columns tz (l # ls) =
     (case get_timestamp (l_ts l) of
        Inl e \<Rightarrow> Inl e
      | Inr s \<Rightarrow>
          (case get_datetime tz s of
             Inl e \<Rightarrow> Inl e
           | Inr d \<Rightarrow>
               (case with_columns tz ls of
                  Inl e \<Rightarrow> Inl e
                | Inr rows \<Rightarrow> Inr (\<lparr>lr_src = l, lr_ts = s, lr_datetime = d\<rparr> # rows))))"

text \<open>Lines 116 to 122: the columns selected for one row.\<close>

definition time_columns :: "log_row \<Rightarrow> time_row" where
  "time_columns r =
     \<lparr>t_start_time = lr_ts r,
      t_hour = hour (lr_datetime r),
      t_day = dayofmonth (lr_datetime r),
      t_week = weekofyear (lr_datetime r),
      t_month = month (lr_datetime r),
      t_year = year (lr_datetime r),
      t_weekday = date_format_E (lr_datetime r)\<rparr>"

text \<open>Lines 116 to 124.\<close>

definition time_table :: "log_row list \<Rightarrow> time_row list" where
  "time_table df = distinct_df (map time_columns df)"

text \<open>Lines 137 to 140: the inner join of the two tables on \<^verbatim>\<open>artist_id\<close>.\<close>

definition song_artist_columns :: "songs_row \<Rightarrow> artists_row \<Rightarrow> song_artist_row" where
  "song_artist_columns s a =
     \<lparr>sa_artist_id = s_artist_id s, sa_song_id = s_song_id s, sa_title = s_title s,
      sa_year = s_year s, sa_duration = s_duration s, sa_artist_name = a_name a\<rparr>"

definition song_df :: "songs_row list \<Rightarrow> artists_row list \<Rightarrow> song_artist_row list" where
  "song_df songs artists =
     inner_join (\<lambda>s a. sql_eq (s_artist_id s) (a_artist_id a)) song_artist_columns
       songs artists"

text \<open>Lines 143 to 147; \<^verbatim>\<open>join\<close> takes the conjunction of the list, from the
  left.\<close>

definition conditions :: "log_row \<Rightarrow> song_artist_row \<Rightarrow> bool option" where
  "conditions r sa =
     sql_and
       (sql_and (sql_eq (l_song (lr_src r)) (sa_title sa))
                (sql_eq (l_artist (lr_src r)) (sa_artist_name sa)))
       (sql_eq (l_length (lr_src r)) (sa_duration sa))"

text \<open>
  Lines 148 to 161. The logical line ends with the comment of line 162, since a
  backslash does not continue a comment: the call of \<^verbatim>\<open>withColumn\<close> on line 163
  is not part of the expression assigned to \<^verbatim>\<open>songplays_table\<close>.
\<close>

definition songplays_columns :: "log_row \<Rightarrow> song_artist_row \<Rightarrow> songplays_row" where
  "songplays_columns r sa =
     \<lparr>sp_start_time = lr_ts r, sp_user_id = l_userId (lr_src r),
      sp_level = l_level (lr_src r), sp_song_id = sa_song_id sa,
      sp_artist_id = sa_artist_id sa, sp_session_id = l_sessionId (lr_src r),
      sp_location = l_location (lr_src r), sp_user_agent = l_userAgent (lr_src r),
      sp_month = month (lr_datetime r), sp_year = year (lr_datetime r)\<rparr>"

definition songplays_table :: "log_row list \<Rightarrow> song_artist_row list \<Rightarrow> songplays_row list" where
  "songplays_table df sdf = inner_join conditions songplays_columns df sdf"

text \<open>
  Lines 86 to 168, in the order of the calls: the filter on \<^verbatim>\<open>df.page\<close>, the
  select and the write of \<^verbatim>\<open>users\<close>, the two \<^verbatim>\<open>withColumn\<close> calls on
  \<^verbatim>\<open>ts\<close>, the write of \<^verbatim>\<open>time\<close>, which evaluates the two functions, the
  two reads, the conditions on \<^verbatim>\<open>df.song\<close>, \<^verbatim>\<open>df.artist\<close> and
  \<^verbatim>\<open>df.length\<close>, the select and the write of \<^verbatim>\<open>songplays\<close>.
\<close>

definition process_log_data ::
  "(int \<Rightarrow> int) \<Rightarrow> string \<Rightarrow> string \<Rightarrow> state \<Rightarrow> error + state" where
  "process_log_data tz input_data output_data st =
     (case spark_read (path_join input_data ''log_data'') st of
        Inl e \<Rightarrow> Inl e
      | Inr (LogData docs, st1) \<Rightarrow>
          let cols = log_data_columns docs;
              df0 = map log_data_row docs
          in if \<not> resolves cols [''page''] then Inl AttributeError
             else
               let df = filter next_song df0
               in if \<not> resolves cols [''userId'', ''firstName'', ''lastName'', ''gender'',
                                        ''level'']
                  then Inl AnalysisException
                  else
                    let st2 = spark_write (path_join output_data ''users'')
                                (UsersTable (users_table df)) st1
                    in if \<not> resolves cols [''ts''] then Inl AnalysisException
                       else
                         (case with_columns tz df of
                            Inl e \<Rightarrow> Inl e
                          | Inr df' \<Rightarrow>
                              let st3 = spark_write (path_join output_data ''time'')
                                          (TimeTable (time_table df')) st2
                              in (case spark_read (path_join output_data ''songs'') st3 of
                                    Inl e \<Rightarrow> Inl e
                                  | Inr (SongsTable songs, st4) \<Rightarrow>
                                      (case spark_read (path_join output_data ''artists'') st4 of
                                         Inl e \<Rightarrow> Inl e
                                       | Inr (ArtistsTable artists, st5) \<Rightarrow>
                                           if \<not> resolves cols [''song'', ''artist'', ''length'']
                                           then Inl AttributeError
                                           else if \<not> resolves cols
                                                      [''ts'', ''userId'', ''level'',
                                                       ''sessionId'', ''location'',
                                                       ''userAgent'']
                                           then Inl AnalysisException
                                           else
                                             Inr (spark_write
                                                    (path_join output_data ''songplays'')
                                                    (SongplaysTable
                                                       (songplays_table df'
                                                          (song_df songs artists)))
                                                    st5)
                                       | Inr (_, _) \<Rightarrow> Inl AnalysisException)
                                  | Inr (_, _) \<Rightarrow> Inl AnalysisException))
      | Inr (_, _) \<Rightarrow> Inl AnalysisException)"

section \<open>The job: \<^verbatim>\<open>main\<close>\<close>

definition input_data :: string where
  "input_data = ''s3a://udacity-dend/''"

definition output_data :: string where
  "output_data = ''s3a://babak-udacity-project4/''"

text \<open>Lines 192 and 193; an exception of the first call ends the job.\<close>

definition main :: "(int \<Rightarrow> int) \<Rightarrow> state \<Rightarrow> error + state" where
  "main tz st =
     (case process_song_data input_data output_data st of
        Inl e \<Rightarrow> Inl e
      | Inr st1 \<Rightarrow> process_log_data tz input_data output_data st1)"

section \<open>Observing a run\<close>

text \<open>The documents a state holds under the input location, and the rows and the
  columns of the frames that are read from them.\<close>

definition catalog_docs :: "state \<Rightarrow> song_doc list" where
  "catalog_docs st =
     (case files st (path_join input_data ''song_data'') of
        Some (SongData docs) \<Rightarrow> docs | _ \<Rightarrow> [])"

definition log_docs :: "state \<Rightarrow> log_doc list" where
  "log_docs st =
     (case files st (path_join input_data ''log_data'') of
        Some (LogData docs) \<Rightarrow> docs | _ \<Rightarrow> [])"

definition catalog_of :: "state \<Rightarrow> song_json list" where
  "catalog_of st = map song_data_row (catalog_docs st)"

definition log_of :: "state \<Rightarrow> log_json list" where
  "log_of st = map log_data_row (log_docs st)"

definition catalog_columns :: "state \<Rightarrow> string list" where
  "catalog_columns st = song_data_columns (catalog_docs st)"

definition log_columns :: "state \<Rightarrow> string list" where
  "log_columns st = log_data_columns (log_docs st)"

text \<open>The columns of the two inputs that the program names.\<close>

definition song_data_used :: "string list" where
  "song_data_used =
     [''song_id'', ''title'', ''artist_id'', ''year'', ''duration'', ''artist_name'',
      ''artist_location'', ''artist_latitude'', ''artist_longitude'']"

definition log_data_used :: "string list" where
  "log_data_used =
     [''userId'', ''firstName'', ''lastName'', ''gender'', ''level'', ''page'', ''ts'',
      ''song'', ''artist'', ''length'', ''sessionId'', ''location'', ''userAgent'']"

text \<open>The five tables a state holds under the output location.\<close>

definition songs_of :: "state \<Rightarrow> songs_row list" where
  "songs_of st =
     (case files st (path_join output_data ''songs'') of
        Some (SongsTable rows) \<Rightarrow> rows | _ \<Rightarrow> [])"

definition artists_of :: "state \<Rightarrow> artists_row list" where
  "artists_of st =
     (case files st (path_join output_data ''artists'') of
        Some (ArtistsTable rows) \<Rightarrow> rows | _ \<Rightarrow> [])"

definition users_of :: "state \<Rightarrow> users_row list" where
  "users_of st =
     (case files st (path_join output_data ''users'') of
        Some (UsersTable rows) \<Rightarrow> rows | _ \<Rightarrow> [])"

definition time_of :: "state \<Rightarrow> time_row list" where
  "time_of st =
     (case files st (path_join output_data ''time'') of
        Some (TimeTable rows) \<Rightarrow> rows | _ \<Rightarrow> [])"

definition songplays_of :: "state \<Rightarrow> songplays_row list" where
  "songplays_of st =
     (case files st (path_join output_data ''songplays'') of
        Some (SongplaysTable rows) \<Rightarrow> rows | _ \<Rightarrow> [])"

text \<open>The state in which a job that meets no exception ends.\<close>

definition job_result ::
  "state \<Rightarrow> song_json list \<Rightarrow> log_json list \<Rightarrow> log_row list \<Rightarrow> state" where
  "job_result st cat logs df =
     st\<lparr>files := (files st)
            (path_join output_data ''songs'' \<mapsto> SongsTable (songs_table cat),
             path_join output_data ''artists'' \<mapsto> ArtistsTable (artists_table cat),
             path_join output_data ''users'' \<mapsto>
               UsersTable (users_table (filter next_song logs)),
             path_join output_data ''time'' \<mapsto> TimeTable (time_table df),
             path_join output_data ''songplays'' \<mapsto>
               SongplaysTable
                 (songplays_table df (song_df (songs_table cat) (artists_table cat)))),
        trace := trace st @
          [Read (path_join input_data ''song_data''),
           Write (path_join output_data ''songs''),
           Write (path_join output_data ''artists''),
           Read (path_join input_data ''log_data''),
           Write (path_join output_data ''users''),
           Write (path_join output_data ''time''),
           Read (path_join output_data ''songs''),
           Read (path_join output_data ''artists''),
           Write (path_join output_data ''songplays'')]\<rparr>"

text \<open>Host zones with a constant offset from UTC, in seconds; \<open>utc\<close> is offset 0.\<close>

definition fixed_zone :: "int \<Rightarrow> int \<Rightarrow> int" where
  "fixed_zone off s = off"

definition utc :: "int \<Rightarrow> int" where
  "utc = fixed_zone 0"

text \<open>
  Integer division with truncation toward zero, as the specification words the
  conversion of \<^verbatim>\<open>ts\<close>; it is compared with \<open>get_timestamp\<close> below.
\<close>

definition truncate_div :: "int \<Rightarrow> int \<Rightarrow> int" where
  "truncate_div a b = sgn a * sgn b * (\<bar>a\<bar> div \<bar>b\<bar>)"

section \<open>Concrete inputs\<close>

text \<open>The rows of the catalog record and the activity record of the end-to-end
  scenario; the columns the scenario does not give are null.\<close>

definition gob_song :: song_json where
  "gob_song =
     \<lparr>c_song_id = Some ''SOSKICX12A6D4F9F3E'', c_title = Some ''Face the Ashes'',
      c_artist_id = Some ''ARC1IHZ1187FB4E920'', c_year = Some 2007,
      c_duration = Some 209.60934, c_artist_name = Some ''Gob'',
      c_artist_location = None, c_artist_latitude = None, c_artist_longitude = None\<rparr>"

definition gob_play :: log_json where
  "gob_play =
     \<lparr>l_userId = Some ''15'', l_firstName = None, l_lastName = None, l_gender = None,
      l_level = Some ''paid'', l_page = Some ''NextSong'', l_ts = Some 1541105830796,
      l_song = Some ''Face the Ashes'', l_artist = Some ''Gob'',
      l_length = Some 209.60934, l_sessionId = Some 818, l_location = None,
      l_userAgent = None\<rparr>"

text \<open>The document that gives every key, with the values of a row (null for a null).\<close>

definition song_doc_of :: "song_json \<Rightarrow> song_doc" where
  "song_doc_of c =
     \<lparr>cd_song_id = Given (c_song_id c), cd_title = Given (c_title c),
      cd_artist_id = Given (c_artist_id c), cd_year = Given (c_year c),
      cd_duration = Given (c_duration c), cd_artist_name = Given (c_artist_name c),
      cd_artist_location = Given (c_artist_location c),
      cd_artist_latitude = Given (c_artist_latitude c),
      cd_artist_longitude = Given (c_artist_longitude c)\<rparr>"

definition log_doc_of :: "log_json \<Rightarrow> log_doc" where
  "log_doc_of l =
     \<lparr>ld_userId = Given (l_userId l), ld_firstName = Given (l_firstName l),
      ld_lastName = Given (l_lastName l), ld_gender = Given (l_gender l),
      ld_level = Given (l_level l), ld_page = Given (l_page l), ld_ts = Given (l_ts l),
      ld_song = Given (l_song l), ld_artist = Given (l_artist l),
      ld_length = Given (l_length l), ld_sessionId = Given (l_sessionId l),
      ld_location = Given (l_location l), ld_userAgent = Given (l_userAgent l)\<rparr>"

text \<open>The store that holds the two inputs as such documents, and nothing else.\<close>

definition store_of :: "song_json list \<Rightarrow> log_json list \<Rightarrow> state" where
  "store_of cat logs =
     \<lparr>files = [path_join input_data ''song_data'' \<mapsto> SongData (map song_doc_of cat),
               path_join input_data ''log_data'' \<mapsto> LogData (map log_doc_of logs)],
      trace = []\<rparr>"

text \<open>
  The two documents of the scenario with the keys that the scenario writes and no
  other; the store that holds them; and the store that holds the catalog document with
  every key and the activity document as written.
\<close>

definition gob_song_doc :: song_doc where
  "gob_song_doc =
     \<lparr>cd_song_id = Given (Some ''SOSKICX12A6D4F9F3E''),
      cd_title = Given (Some ''Face the Ashes''),
      cd_artist_id = Given (Some ''ARC1IHZ1187FB4E920''), cd_year = Given (Some 2007),
      cd_duration = Given (Some 209.60934), cd_artist_name = Given (Some ''Gob''),
      cd_artist_location = Absent, cd_artist_latitude = Absent,
      cd_artist_longitude = Absent\<rparr>"

definition gob_play_doc :: log_doc where
  "gob_play_doc =
     \<lparr>ld_userId = Given (Some ''15''), ld_firstName = Absent, ld_lastName = Absent,
      ld_gender = Absent, ld_level = Given (Some ''paid''),
      ld_page = Given (Some ''NextSong''), ld_ts = Given (Some 1541105830796),
      ld_song = Given (Some ''Face the Ashes''), ld_artist = Given (Some ''Gob''),
      ld_length = Given (Some 209.60934), ld_sessionId = Given (Some 818),
      ld_location = Absent, ld_userAgent = Absent\<rparr>"

definition as_written :: state where
  "as_written =
     \<lparr>files = [path_join input_data ''song_data'' \<mapsto> SongData [gob_song_doc],
               path_join input_data ''log_data'' \<mapsto> LogData [gob_play_doc]],
      trace = []\<rparr>"

definition log_as_written :: state where
  "log_as_written =
     \<lparr>files = [path_join input_data ''song_data'' \<mapsto> SongData [song_doc_of gob_song],
               path_join input_data ''log_data'' \<mapsto> LogData [gob_play_doc]],
      trace = []\<rparr>"

definition scenario :: state where
  "scenario = store_of [gob_song] [gob_play]"

text \<open>The same play one millisecond before the epoch.\<close>

definition early_play :: log_json where
  "early_play = gob_play\<lparr>l_ts := Some (- 1)\<rparr>"

text \<open>A second catalog record with the same \<^verbatim>\<open>song_id\<close> and \<^verbatim>\<open>artist_id\<close>
  and another title and artist location.\<close>

definition gob_song_live :: song_json where
  "gob_song_live =
     gob_song\<lparr>c_title := Some ''Face the Ashes (Live)'',
              c_artist_location := Some ''Langley''\<rparr>"

text \<open>A second catalog record that differs from the first in \<^verbatim>\<open>song_id\<close> only.\<close>

definition gob_song_reissue :: song_json where
  "gob_song_reissue = gob_song\<lparr>c_song_id := Some ''SOSKICX12A6D4F9F3F''\<rparr>"

text \<open>The scenario's activity frame under \<open>utc\<close>, its one row of
  \<^verbatim>\<open>songplays\<close>, and the state in which its job ends.\<close>

definition scenario_rows :: "log_row list" where
  "scenario_rows = [\<lparr>lr_src = gob_play, lr_ts = 1541105830, lr_datetime = 1541105830\<rparr>]"

definition gob_songplay :: songplays_row where
  "gob_songplay =
     \<lparr>sp_start_time = 1541105830, sp_user_id = Some ''15'', sp_level = Some ''paid'',
      sp_song_id = Some ''SOSKICX12A6D4F9F3E'', sp_artist_id = Some ''ARC1IHZ1187FB4E920'',
      sp_session_id = Some 818, sp_location = None, sp_user_agent = None,
      sp_month = 11, sp_year = 2018\<rparr>"

definition scenario_done :: state where
  "scenario_done = job_result scenario [gob_song] [gob_play] scenario_rows"

text \<open>A visit of the home page by the same user: an activity record that is no song
  play.\<close>

definition home_visit :: log_json where
  "home_visit = gob_play\<lparr>l_page := Some ''Home''\<rparr>"

text \<open>The states of the other concrete runs below: the log of \<open>early_play\<close>, the
  catalog with \<open>gob_song_live\<close>, the scenario on a host eight hours east of UTC, the
  catalog with \<open>gob_song_reissue\<close>, a log that holds the scenario's record twice, a store
  that holds nothing, and the scenario after the catalog pipeline.\<close>

definition early :: state where
  "early = store_of [gob_song] [early_play]"

definition early_done :: state where
  "early_done =
     job_result early [gob_song] [early_play]
       [\<lparr>lr_src = early_play, lr_ts = - 1, lr_datetime = - 1\<rparr>]"

definition dup :: state where
  "dup = store_of [gob_song, gob_song_live] [gob_play]"

definition dup_done :: state where
  "dup_done = job_result dup [gob_song, gob_song_live] [gob_play] scenario_rows"

definition east_done :: state where
  "east_done =
     job_result scenario [gob_song] [gob_play]
       [\<lparr>lr_src = gob_play, lr_ts = 1541105830, lr_datetime = 1541134630\<rparr>]"

definition reissue :: state where
  "reissue = store_of [gob_song, gob_song_reissue] [gob_play]"

definition reissue_done :: state where
  "reissue_done = job_result reissue [gob_song, gob_song_reissue] [gob_play] scenario_rows"

definition empty_store :: state where
  "empty_store = \<lparr>files = Map.empty, trace = []\<rparr>"

definition twice :: state where
  "twice = store_of [gob_song] [gob_play, gob_play]"

definition twice_done :: state where
  "twice_done = job_result twice [gob_song] [gob_play, gob_play] (scenario_rows @ scenario_rows)"

text \<open>A catalog that repeats a record, with a log of three plays, two of them in one
  second; the activity frame of that log under \<open>utc\<close>; the state in which the job
  ends.\<close>

definition late_play :: log_json where
  "late_play = gob_play\<lparr>l_ts := Some 1541105830999\<rparr>"

definition next_play :: log_json where
  "next_play = gob_play\<lparr>l_userId := Some ''16'', l_ts := Some 1541105831000\<rparr>"

definition busy :: state where
  "busy = store_of [gob_song, gob_song_reissue, gob_song] [gob_play, late_play, next_play]"

definition busy_rows :: "log_row list" where
  "busy_rows =
     [\<lparr>lr_src = gob_play, lr_ts = 1541105830, lr_datetime = 1541105830\<rparr>,
      \<lparr>lr_src = late_play, lr_ts = 1541105830, lr_datetime = 1541105830\<rparr>,
      \<lparr>lr_src = next_play, lr_ts = 1541105831, lr_datetime = 1541105831\<rparr>]"

definition busy_done :: state where
  "busy_done =
     job_result busy [gob_song, gob_song_reissue, gob_song] [gob_play, late_play, next_play]
       busy_rows"

definition scenario_mid :: state where
  "scenario_mid =
     scenario\<lparr>files := (files scenario)
            (path_join output_data ''songs'' \<mapsto> SongsTable (songs_table [gob_song]),
             path_join output_data ''artists'' \<mapsto> ArtistsTable (artists_table [gob_song])),
          trace := trace scenario @ [Read (path_join input_data ''song_data''),
           Write (path_join output_data ''songs''),
           Write (path_join output_data ''artists'')]\<rparr>"

section \<open>Shape of a run\<close>

text \<open>A run of \<open>main\<close> that meets no exception ends in \<open>job_result\<close>, and a run from
  a state that holds both inputs, with the columns the program names and timestamps
  that convert, meets none.\<close>

lemma paths:
  "path_join input_data ''song_data'' = ''s3a://udacity-dend/song_data''"
  "path_join input_data ''log_data'' = ''s3a://udacity-dend/log_data''"
  "path_join output_data ''songs'' = ''s3a://babak-udacity-project4/songs''"
  "path_join output_data ''artists'' = ''s3a://babak-udacity-project4/artists''"
  "path_join output_data ''users'' = ''s3a://babak-udacity-project4/users''"
  "path_join output_data ''time'' = ''s3a://babak-udacity-project4/time''"
  "path_join output_data ''songplays'' = ''s3a://babak-udacity-project4/songplays''"
  by (simp_all add: path_join_def input_data_def output_data_def)

lemma resolves_song_data:
  "resolves cols song_data_used \<longleftrightarrow>
     resolves cols [''song_id'', ''title'', ''artist_id'', ''year'', ''duration'']
   \<and> resolves cols [''artist_id'', ''artist_name'', ''artist_location'', ''artist_latitude'',
                     ''artist_longitude'']"
  by (auto simp: resolves_def song_data_used_def)

lemma resolves_log_data:
  "resolves cols log_data_used \<longleftrightarrow>
     resolves cols [''page'']
   \<and> resolves cols [''userId'', ''firstName'', ''lastName'', ''gender'', ''level'']
   \<and> resolves cols [''ts'']
   \<and> resolves cols [''song'', ''artist'', ''length'']
   \<and> resolves cols [''ts'', ''userId'', ''level'', ''sessionId'', ''location'', ''userAgent'']"
  by (auto simp: resolves_def log_data_used_def)

lemma song_data_eval:
  assumes "files st (path_join input_data ''song_data'') = Some (SongData docs)"
    and "resolves (song_data_columns docs) song_data_used"
  shows "process_song_data input_data output_data st =
     Inr (st\<lparr>files := (files st)
            (path_join output_data ''songs'' \<mapsto>
               SongsTable (songs_table (map song_data_row docs)),
             path_join output_data ''artists'' \<mapsto>
               ArtistsTable (artists_table (map song_data_row docs))),
          trace := trace st @ [Read (path_join input_data ''song_data''),
           Write (path_join output_data ''songs''),
           Write (path_join output_data ''artists'')]\<rparr>)"
  using assms
  by (simp add: process_song_data_def Let_def spark_read_def spark_write_def resolves_song_data)

lemma song_data_elim:
  assumes "process_song_data i o' st = Inr st1"
  shows "\<exists>docs. files st (path_join i ''song_data'') = Some (SongData docs)
           \<and> resolves (song_data_columns docs) song_data_used"
proof (cases "files st (path_join i ''song_data'')")
  case None
  with assms show ?thesis by (simp add: process_song_data_def Let_def spark_read_def)
next
  case (Some d)
  with assms show ?thesis
    by (cases d)
      (simp_all add: process_song_data_def spark_read_def Let_def resolves_song_data
        split: if_splits)
qed

lemma log_data_elim:
  assumes "process_log_data tz i o' st = Inr st1"
  shows "\<exists>docs df. files st (path_join i ''log_data'') = Some (LogData docs)
           \<and> resolves (log_data_columns docs) [''page'']
           \<and> resolves (log_data_columns docs)
                [''userId'', ''firstName'', ''lastName'', ''gender'', ''level'']
           \<and> resolves (log_data_columns docs) [''ts'']
           \<and> with_columns tz (filter next_song (map log_data_row docs)) = Inr df"
proof (cases "files st (path_join i ''log_data'')")
  case None
  with assms show ?thesis by (simp add: process_log_data_def Let_def spark_read_def)
next
  case (Some d)
  with assms show ?thesis
    by (cases d)
      (simp_all add: process_log_data_def spark_read_def Let_def
        split: if_splits sum.splits)
qed

lemma main_eval:
  assumes "files st (path_join input_data ''song_data'') = Some (SongData docs)"
    and "resolves (song_data_columns docs) song_data_used"
    and "files st (path_join input_data ''log_data'') = Some (LogData ldocs)"
    and "resolves (log_data_columns ldocs) log_data_used"
    and "with_columns tz (filter next_song (map log_data_row ldocs)) = Inr df"
  shows "main tz st =
           Inr (job_result st (map song_data_row docs) (map log_data_row ldocs) df)"
  using assms unfolding main_def job_result_def
  by (simp add: song_data_eval process_log_data_def Let_def spark_read_def spark_write_def paths
      resolves_log_data)

lemma main_run:
  assumes "main tz st = Inr st'"
  shows "\<exists>df. with_columns tz (filter next_song (log_of st)) = Inr df
            \<and> files st (path_join input_data ''song_data'') = Some (SongData (catalog_docs st))
            \<and> files st (path_join input_data ''log_data'') = Some (LogData (log_docs st))
            \<and> resolves (catalog_columns st) song_data_used
            \<and> resolves (log_columns st) log_data_used
            \<and> st' = job_result st (catalog_of st) (log_of st) df"
proof -
  from assms obtain st1 where s1: "process_song_data input_data output_data st = Inr st1"
    and s2: "process_log_data tz input_data output_data st1 = Inr st'"
    by (auto simp: main_def split: sum.splits)
  from song_data_elim [OF s1] obtain docs
    where cat: "files st (path_join input_data ''song_data'') = Some (SongData docs)"
      and cols: "resolves (song_data_columns docs) song_data_used" by blast
  note st1 = song_data_eval [OF cat cols, unfolded s1, simplified]
  have same: "files st1 (path_join input_data ''log_data'')
      = files st (path_join input_data ''log_data'')"
    by (simp add: st1 paths)
  from log_data_elim [OF s2] same obtain ldocs df
    where logs: "files st (path_join input_data ''log_data'') = Some (LogData ldocs)"
      and df: "with_columns tz (filter next_song (map log_data_row ldocs)) = Inr df" by auto
  have songs: "files st1 (path_join output_data ''songs'')
      = Some (SongsTable (songs_table (map song_data_row docs)))"
    and artists: "files st1 (path_join output_data ''artists'')
      = Some (ArtistsTable (artists_table (map song_data_row docs)))"
    by (simp_all add: st1 paths)
  have lcols: "resolves (log_data_columns ldocs) log_data_used"
  proof (rule ccontr)
    assume "\<not> resolves (log_data_columns ldocs) log_data_used"
    with logs same df songs artists
    have "\<exists>e. process_log_data tz input_data output_data st1 = Inl e"
      by (auto simp: process_log_data_def Let_def spark_read_def spark_write_def paths
          resolves_log_data)
    with s2 show False by auto
  qed
  from main_eval [OF cat cols logs lcols df] assms
  have "st' = job_result st (map song_data_row docs) (map log_data_row ldocs) df" by simp
  moreover have "catalog_docs st = docs" using cat by (simp add: catalog_docs_def)
  moreover have "log_docs st = ldocs" using logs by (simp add: log_docs_def)
  ultimately show ?thesis using cat logs df cols lcols
    by (simp add: catalog_of_def log_of_def catalog_columns_def log_columns_def)
qed

lemma job_result_tables:
  "songs_of (job_result st cat logs df) = songs_table cat"
  "artists_of (job_result st cat logs df) = artists_table cat"
  "users_of (job_result st cat logs df) = users_table (filter next_song logs)"
  "time_of (job_result st cat logs df) = time_table df"
  "songplays_of (job_result st cat logs df)
     = songplays_table df (song_df (songs_table cat) (artists_table cat))"
  by (simp_all add: job_result_def songs_of_def artists_of_def users_of_def time_of_def
      songplays_of_def paths)

section \<open>Facts about the operations\<close>

lemma set_inner_join:
  "set (inner_join cond mk ls rs) = {mk l r | l r. l \<in> set ls \<and> r \<in> set rs \<and> cond l r = Some True}"
  by (auto simp: inner_join_def is_true_def)

lemma sql_eq_true: "sql_eq x y = Some True \<longleftrightarrow> (\<exists>v. x = Some v \<and> y = Some v)"
  by (cases x; cases y) auto

lemma sql_and_true: "sql_and p q = Some True \<longleftrightarrow> p = Some True \<and> q = Some True"
  by (cases "(p, q)" rule: sql_and.cases) auto

lemma next_song_page: "next_song l \<longleftrightarrow> l_page l = Some ''NextSong''"
  by (auto simp: next_song_def is_true_def sql_eq_true)

lemma with_columns_src: "with_columns tz ls = Inr df \<Longrightarrow> map lr_src df = ls"
  by (induction ls arbitrary: df) (auto split: sum.splits)

lemma with_columns_row:
  "with_columns tz ls = Inr df \<Longrightarrow> r \<in> set df \<Longrightarrow>
     lr_src r \<in> set ls \<and> (\<exists>t. l_ts (lr_src r) = Some t \<and> lr_ts r = t div 1000)
       \<and> lr_datetime r = lr_ts r + tz (lr_ts r)
       \<and> min_datetime \<le> lr_datetime r \<and> lr_datetime r \<le> max_datetime"
proof (induction ls arbitrary: df)
  case Nil
  then show ?case by simp
next
  case (Cons l ls)
  then show ?case
    by (auto simp: get_timestamp_def get_datetime_def Let_def
        split: sum.splits option.splits if_splits)
qed

lemma with_columns_total:
  "l \<in> set ls \<Longrightarrow> with_columns tz ls = Inr df \<Longrightarrow> \<exists>r \<in> set df. lr_src r = l"
  using with_columns_src [of tz ls df] by (metis (no_types, lifting) imageE list.set_map)

lemma row_of_doc [simp]:
  "song_data_row (song_doc_of c) = c" "log_data_row (log_doc_of l) = l"
  by (simp_all add: song_data_row_def song_doc_of_def log_data_row_def log_doc_of_def)

lemma row_of_doc_comp [simp]:
  "song_data_row \<circ> song_doc_of = id" "log_data_row \<circ> log_doc_of = id"
  by (simp_all add: fun_eq_iff)

lemma rows_of_docs:
  "map song_data_row (map song_doc_of cat) = cat" "map log_data_row (map log_doc_of logs) = logs"
  by simp_all

lemma song_columns_of_docs:
  "cat \<noteq> [] \<Longrightarrow> song_data_columns (map song_doc_of cat) = song_data_used"
  by (cases cat) (simp_all add: song_data_columns_def song_doc_of_def song_data_used_def)

lemma log_columns_of_docs:
  "logs \<noteq> [] \<Longrightarrow> log_data_columns (map log_doc_of logs) = log_data_used"
  by (cases logs) (simp_all add: log_data_columns_def log_doc_of_def log_data_used_def)

lemmas columns_of_docs = song_columns_of_docs log_columns_of_docs

lemma resolves_refl [simp]: "resolves cols cols"
  by (simp add: resolves_def list_all_iff)

lemma main_store_of:
  assumes "with_columns tz (filter next_song logs) = Inr df" and "cat \<noteq> []" and "logs \<noteq> []"
  shows "main tz (store_of cat logs) = Inr (job_result (store_of cat logs) cat logs df)"
  using main_eval [of "store_of cat logs" "map song_doc_of cat" "map log_doc_of logs" tz df]
    assms
  by (simp add: store_of_def paths columns_of_docs)

lemma store_of_inputs:
  "catalog_of (store_of cat logs) = cat" "log_of (store_of cat logs) = logs"
  by (simp_all add: store_of_def catalog_of_def log_of_def catalog_docs_def log_docs_def paths)

lemma calendar_scenario:
  "hour 1541105830 = 20" "dayofmonth 1541105830 = 1" "weekofyear 1541105830 = 44"
  "month 1541105830 = 11" "year 1541105830 = 2018" "date_format_E 1541105830 = ''Thu''"
  by code_simp+

lemma scenario_columns:
  "with_columns utc (filter next_song [gob_play]) = Inr scenario_rows"
  by (simp add: next_song_page gob_play_def scenario_rows_def get_timestamp_def get_datetime_def
      utc_def fixed_zone_def min_datetime_def max_datetime_def)

lemma scenario_run: "main utc scenario = Inr scenario_done"
  unfolding scenario_done_def scenario_def by (rule main_store_of [OF scenario_columns]) simp_all

lemma scenario_songs: "songs_table [gob_song] = [songs_columns gob_song]"
  by (simp add: songs_table_def distinct_df_def)

lemma scenario_artists: "artists_table [gob_song] = [artists_columns gob_song]"
  by (simp add: artists_table_def distinct_df_def)

lemma scenario_song_df:
  "song_df (songs_table [gob_song]) (artists_table [gob_song])
     = [song_artist_columns (songs_columns gob_song) (artists_columns gob_song)]"
  unfolding scenario_songs scenario_artists
  by (simp add: song_df_def inner_join_def is_true_def songs_columns_def artists_columns_def
      gob_song_def)

lemma scenario_songplays:
  "songplays_table scenario_rows (song_df (songs_table [gob_song]) (artists_table [gob_song]))
     = [gob_songplay]"
  unfolding scenario_song_df
  by (simp add: songplays_table_def inner_join_def
      is_true_def conditions_def songs_columns_def artists_columns_def song_artist_columns_def
      songplays_columns_def scenario_rows_def gob_song_def gob_play_def gob_songplay_def
      calendar_scenario)

lemma scenario_tables:
  "log_of scenario = [gob_play]"
  "songs_of scenario_done = [songs_columns gob_song]"
  "artists_of scenario_done = [artists_columns gob_song]"
  by (simp_all add: scenario_done_def scenario_def store_of_inputs job_result_tables
      scenario_songs scenario_artists)

lemma scenario_songplays_of: "songplays_of scenario_done = [gob_songplay]"
  by (simp add: scenario_done_def job_result_tables scenario_songplays)

lemma set_distinct_df: "set (distinct_df rows) = set rows"
  by (simp add: distinct_df_def)

lemma catalog_docs_files:
  "catalog_docs st \<noteq> [] \<Longrightarrow>
     files st (path_join input_data ''song_data'') = Some (SongData (catalog_docs st))"
  by (auto simp: catalog_docs_def split: option.splits dataset.splits)

lemma log_docs_files:
  "log_docs st \<noteq> [] \<Longrightarrow>
     files st (path_join input_data ''log_data'') = Some (LogData (log_docs st))"
  by (auto simp: log_docs_def split: option.splits dataset.splits)

lemma scenario_users: "users_of scenario_done = [users_columns gob_play]"
  by (simp add: scenario_done_def job_result_tables users_table_def distinct_df_def
      next_song_page gob_play_def)

lemma scenario_time: "time_of scenario_done = map time_columns scenario_rows"
  by (simp add: scenario_done_def job_result_tables time_table_def distinct_df_def
      scenario_rows_def)

lemma time_row_of_record:
  assumes "main tz st = Inr st'" and "l \<in> set (log_of st)" and "l_page l = Some ''NextSong''"
  shows "\<exists>ms lr. l_ts l = Some ms \<and> time_columns lr \<in> set (time_of st')
           \<and> lr_ts lr = ms div 1000 \<and> lr_datetime lr = lr_ts lr + tz (lr_ts lr)"
proof -
  from main_run [OF assms(1)] obtain df
    where df: "with_columns tz (filter next_song (log_of st)) = Inr df"
      and st': "st' = job_result st (catalog_of st) (log_of st) df" by blast
  from assms(2,3) have "l \<in> set (filter next_song (log_of st))" by (simp add: next_song_page)
  from with_columns_total [OF this df] obtain lr where lr: "lr \<in> set df" and src: "lr_src lr = l"
    by blast
  from with_columns_row [OF df lr] src lr show ?thesis
    by (auto simp: st' job_result_tables time_table_def set_distinct_df)
qed

lemma time_rows:
  assumes "main tz st = Inr st'" and "t \<in> set (time_of st')"
  shows "\<exists>lr. t = time_columns lr \<and> lr_datetime lr = lr_ts lr + tz (lr_ts lr)"
proof -
  from main_run [OF assms(1)] obtain df
    where df: "with_columns tz (filter next_song (log_of st)) = Inr df"
      and st': "st' = job_result st (catalog_of st) (log_of st) df" by blast
  from assms(2) obtain lr where lr: "lr \<in> set df" and t: "t = time_columns lr"
    by (auto simp: st' job_result_tables time_table_def set_distinct_df)
  from with_columns_row [OF df lr] t show ?thesis by blast
qed

lemma truncate_div_nonneg: "0 \<le> a \<Longrightarrow> truncate_div a 1000 = a div 1000"
  by (cases "a = 0") (simp_all add: truncate_div_def)

lemma early_run: "main utc early = Inr early_done"
  unfolding early_def early_done_def
  by (rule main_store_of)
    (simp_all add: next_song_page early_play_def gob_play_def get_timestamp_def
      get_datetime_def utc_def fixed_zone_def min_datetime_def max_datetime_def)

lemma distinct_distinct_df: "distinct (distinct_df rows)"
  by (simp add: distinct_df_def)

lemma distinct_key:
  assumes "\<forall>x \<in> set xs. \<forall>y \<in> set xs. key (f x) = key (f y) \<longrightarrow> f x = f y"
  shows "distinct (map key (distinct_df (map f xs)))"
  unfolding distinct_map
proof
  show "distinct (distinct_df (map f xs))" by (rule distinct_distinct_df)
  show "inj_on key (set (distinct_df (map f xs)))"
    using assms by (auto simp: inj_on_def set_distinct_df)
qed

lemma dup_run: "main utc dup = Inr dup_done"
  unfolding dup_def dup_done_def by (rule main_store_of [OF scenario_columns]) simp_all

lemma calendar_east:
  "hour 1541134630 = 4" "dayofmonth 1541134630 = 2" "weekofyear 1541134630 = 44"
  "month 1541134630 = 11" "year 1541134630 = 2018" "date_format_E 1541134630 = ''Fri''"
  by code_simp+

lemma east_run: "main (fixed_zone 28800) scenario = Inr east_done"
  unfolding scenario_def east_done_def
  by (rule main_store_of)
    (simp_all add: next_song_page gob_play_def get_timestamp_def get_datetime_def
      fixed_zone_def min_datetime_def max_datetime_def)

lemma log_data_eval:
  assumes "files st (path_join input_data ''log_data'') = Some (LogData docs)"
    and "resolves (log_data_columns docs) log_data_used"
    and "with_columns tz (filter next_song (map log_data_row docs)) = Inr df"
    and "files st (path_join output_data ''songs'') = Some (SongsTable songs)"
    and "files st (path_join output_data ''artists'') = Some (ArtistsTable artists)"
  shows "process_log_data tz input_data output_data st =
     Inr (st\<lparr>files := (files st)
            (path_join output_data ''users'' \<mapsto>
               UsersTable (users_table (filter next_song (map log_data_row docs))),
             path_join output_data ''time'' \<mapsto> TimeTable (time_table df),
             path_join output_data ''songplays'' \<mapsto>
               SongplaysTable (songplays_table df (song_df songs artists))),
          trace := trace st @
            [Read (path_join input_data ''log_data''),
             Write (path_join output_data ''users''),
             Write (path_join output_data ''time''),
             Read (path_join output_data ''songs''),
             Read (path_join output_data ''artists''),
             Write (path_join output_data ''songplays'')]\<rparr>)"
  using assms
  by (simp add: process_log_data_def Let_def spark_read_def spark_write_def paths resolves_log_data)

lemma log_data_needs_songs:
  assumes "files st (path_join input_data ''log_data'') = Some (LogData docs)"
    and "with_columns tz (filter next_song (map log_data_row docs)) = Inr df"
    and "\<forall>songs. files st (path_join output_data ''songs'') \<noteq> Some (SongsTable songs)"
  shows "\<exists>e. process_log_data tz input_data output_data st = Inl e"
proof (cases "files st (path_join output_data ''songs'')")
  case None
  with assms(1,2) show ?thesis
    by (simp add: process_log_data_def Let_def spark_read_def spark_write_def paths)
next
  case (Some d)
  with assms show ?thesis
    by (cases d) (simp_all add: process_log_data_def Let_def spark_read_def spark_write_def paths)
qed

lemma log_data_needs_artists:
  assumes "files st (path_join input_data ''log_data'') = Some (LogData docs)"
    and "with_columns tz (filter next_song (map log_data_row docs)) = Inr df"
    and "files st (path_join output_data ''songs'') = Some (SongsTable songs)"
    and "\<forall>artists. files st (path_join output_data ''artists'') \<noteq> Some (ArtistsTable artists)"
  shows "\<exists>e. process_log_data tz input_data output_data st = Inl e"
proof (cases "files st (path_join output_data ''artists'')")
  case None
  with assms(1,2,3) show ?thesis
    by (simp add: process_log_data_def Let_def spark_read_def spark_write_def paths)
next
  case (Some d)
  with assms show ?thesis
    by (cases d) (simp_all add: process_log_data_def Let_def spark_read_def spark_write_def paths)
qed

lemma log_data_needs_columns:
  assumes "files st (path_join input_data ''log_data'') = Some (LogData docs)"
    and "with_columns tz (filter next_song (map log_data_row docs)) = Inr df"
    and "files st (path_join output_data ''songs'') = Some (SongsTable songs)"
    and "files st (path_join output_data ''artists'') = Some (ArtistsTable artists)"
    and "\<not> resolves (log_data_columns docs) log_data_used"
  shows "\<exists>e. process_log_data tz input_data output_data st = Inl e"
  using assms
  by (auto simp: process_log_data_def Let_def spark_read_def spark_write_def paths resolves_log_data)

lemma log_data_tables:
  assumes "process_log_data tz input_data output_data st = Inr st'"
  shows "\<exists>docs df songs artists.
           files st (path_join input_data ''log_data'') = Some (LogData docs)
         \<and> resolves (log_data_columns docs) log_data_used
         \<and> with_columns tz (filter next_song (map log_data_row docs)) = Inr df
         \<and> files st (path_join output_data ''songs'') = Some (SongsTable songs)
         \<and> files st (path_join output_data ''artists'') = Some (ArtistsTable artists)"
proof -
  from log_data_elim [OF assms] obtain docs df
    where logs: "files st (path_join input_data ''log_data'') = Some (LogData docs)"
      and df: "with_columns tz (filter next_song (map log_data_row docs)) = Inr df" by blast
  from log_data_needs_songs [OF logs df] assms obtain songs
    where s: "files st (path_join output_data ''songs'') = Some (SongsTable songs)" by force
  from log_data_needs_artists [OF logs df s] assms obtain artists
    where a: "files st (path_join output_data ''artists'') = Some (ArtistsTable artists)"
    by force
  from log_data_needs_columns [OF logs df s a] assms
  have "resolves (log_data_columns docs) log_data_used" by force
  with logs df s a show ?thesis by blast
qed

lemma log_data_songplays:
  assumes "process_log_data tz input_data output_data st1 = Inr st'"
  shows "\<exists>df. with_columns tz (filter next_song (log_of st1)) = Inr df
           \<and> trace st' = trace st1 @
                [Read (path_join input_data ''log_data''),
                 Write (path_join output_data ''users''),
                 Write (path_join output_data ''time''),
                 Read (path_join output_data ''songs''),
                 Read (path_join output_data ''artists''),
                 Write (path_join output_data ''songplays'')]
           \<and> songplays_of st' = songplays_table df (song_df (songs_of st1) (artists_of st1))"
proof -
  from log_data_tables [OF assms] obtain docs df songs artists
    where logs: "files st1 (path_join input_data ''log_data'') = Some (LogData docs)"
      and cols: "resolves (log_data_columns docs) log_data_used"
      and df: "with_columns tz (filter next_song (map log_data_row docs)) = Inr df"
      and s: "files st1 (path_join output_data ''songs'') = Some (SongsTable songs)"
      and a: "files st1 (path_join output_data ''artists'') = Some (ArtistsTable artists)"
    by blast
  have l: "log_of st1 = map log_data_row docs"
    using logs by (simp add: log_of_def log_docs_def)
  have so: "songs_of st1 = songs" using s by (simp add: songs_of_def)
  have ar: "artists_of st1 = artists" using a by (simp add: artists_of_def)
  note st' = log_data_eval [OF logs cols df s a, unfolded assms, simplified]
  have "songplays_of st' = songplays_table df (song_df songs artists)"
    by (simp add: st' songplays_of_def)
  moreover have "trace st' = trace st1 @
            [Read (path_join input_data ''log_data''),
             Write (path_join output_data ''users''),
             Write (path_join output_data ''time''),
             Read (path_join output_data ''songs''),
             Read (path_join output_data ''artists''),
             Write (path_join output_data ''songplays'')]"
    by (simp add: st')
  ultimately show ?thesis using df l so ar by simp
qed

lemma scenario_catalog_run:
  "process_song_data input_data output_data scenario = Inr scenario_mid"
  using song_data_eval [of scenario "[song_doc_of gob_song]"]
  by (simp add: scenario_mid_def scenario_def store_of_def paths
      columns_of_docs(1) [of "[gob_song]", simplified])

lemma empty_store_run:
  "process_song_data input_data output_data empty_store = Inl AnalysisException"
  by (simp add: process_song_data_def Let_def spark_read_def empty_store_def)

lemma reissue_run: "main utc reissue = Inr reissue_done"
  unfolding reissue_def reissue_done_def
  by (rule main_store_of [OF scenario_columns]) simp_all

lemma reissue_song_df:
  "song_df (songs_table [gob_song, gob_song_reissue]) (artists_table [gob_song, gob_song_reissue])
     = [song_artist_columns (songs_columns gob_song) (artists_columns gob_song),
        song_artist_columns (songs_columns gob_song_reissue) (artists_columns gob_song)]"
  by (simp add: song_df_def songs_table_def artists_table_def distinct_df_def inner_join_def
      is_true_def songs_columns_def artists_columns_def gob_song_reissue_def gob_song_def)

lemma reissue_songplays:
  "songplays_of reissue_done =
     [gob_songplay, gob_songplay\<lparr>sp_song_id := Some ''SOSKICX12A6D4F9F3F''\<rparr>]"
  unfolding reissue_done_def job_result_tables reissue_song_df
  by (simp add: songplays_table_def inner_join_def is_true_def conditions_def
      songs_columns_def artists_columns_def song_artist_columns_def songplays_columns_def
      scenario_rows_def gob_song_reissue_def gob_song_def gob_play_def gob_songplay_def
      calendar_scenario)

lemma twice_run: "main utc twice = Inr twice_done"
  unfolding twice_def twice_done_def
  by (rule main_store_of)
    (simp_all add: next_song_page gob_play_def scenario_rows_def get_timestamp_def
      get_datetime_def utc_def fixed_zone_def min_datetime_def max_datetime_def)

lemma twice_songplays: "songplays_of twice_done = [gob_songplay, gob_songplay]"
  unfolding twice_done_def job_result_tables scenario_song_df
  by (simp add: songplays_table_def inner_join_def is_true_def conditions_def
      songs_columns_def artists_columns_def song_artist_columns_def songplays_columns_def
      scenario_rows_def gob_song_def gob_play_def gob_songplay_def calendar_scenario)

lemma busy_run: "main utc busy = Inr busy_done"
  unfolding busy_def busy_done_def
  by (rule main_store_of)
    (simp_all add: next_song_page gob_play_def late_play_def next_play_def busy_rows_def
      get_timestamp_def get_datetime_def utc_def fixed_zone_def min_datetime_def
      max_datetime_def)

lemma busy_inputs:
  "catalog_of busy = [gob_song, gob_song_reissue, gob_song]"
  "log_of busy = [gob_play, late_play, next_play]"
  by (simp_all add: busy_def store_of_inputs)

lemma busy_songs:
  "songs_of busy_done = [songs_columns gob_song_reissue, songs_columns gob_song]"
  by (simp add: busy_done_def job_result_tables songs_table_def distinct_df_def
      songs_columns_def gob_song_reissue_def gob_song_def)

lemma busy_artists: "artists_of busy_done = [artists_columns gob_song]"
  by (simp add: busy_done_def job_result_tables artists_table_def distinct_df_def
      artists_columns_def gob_song_reissue_def gob_song_def)

lemma busy_time:
  "map t_start_time (time_of busy_done) = [1541105830, 1541105831]"
  by (simp add: busy_done_def job_result_tables time_table_def distinct_df_def
      time_columns_def busy_rows_def)

lemma as_written_inputs:
  "catalog_of as_written = [gob_song]" "log_of as_written = [gob_play]"
  "catalog_of log_as_written = [gob_song]" "log_of log_as_written = [gob_play]"
  by (simp_all add: as_written_def log_as_written_def catalog_of_def log_of_def
      catalog_docs_def log_docs_def paths song_data_row_def log_data_row_def
      song_doc_of_def gob_song_doc_def gob_play_doc_def gob_song_def gob_play_def)

lemma as_written_columns:
  "catalog_columns as_written
     = [''song_id'', ''title'', ''artist_id'', ''year'', ''duration'', ''artist_name'']"
  "log_columns log_as_written
     = [''userId'', ''level'', ''page'', ''ts'', ''song'', ''artist'', ''length'', ''sessionId'']"
  by (simp_all add: as_written_def log_as_written_def catalog_columns_def log_columns_def
      catalog_docs_def log_docs_def paths song_data_columns_def log_data_columns_def
      gob_song_doc_def gob_play_doc_def)

lemma as_written_run: "main utc as_written = Inl AnalysisException"
  using as_written_columns(1)
  by (simp add: main_def process_song_data_def Let_def spark_read_def spark_write_def
      as_written_def paths catalog_columns_def catalog_docs_def resolves_def)

lemma log_as_written_run: "main utc log_as_written = Inl AnalysisException"
proof -
  have "process_song_data input_data output_data log_as_written
          = Inr (log_as_written\<lparr>files := (files log_as_written)
            (path_join output_data ''songs'' \<mapsto>
               SongsTable (songs_table (map song_data_row [song_doc_of gob_song])),
             path_join output_data ''artists'' \<mapsto>
               ArtistsTable (artists_table (map song_data_row [song_doc_of gob_song]))),
          trace := trace log_as_written @ [Read (path_join input_data ''song_data''),
           Write (path_join output_data ''songs''),
           Write (path_join output_data ''artists'')]\<rparr>)"
    using song_columns_of_docs [of "[gob_song]"]
    by (intro song_data_eval) (simp_all add: log_as_written_def paths)
  then show ?thesis
    using as_written_columns(2)
    by (simp add: main_def process_log_data_def Let_def spark_read_def spark_write_def
        log_as_written_def paths log_columns_def log_docs_def resolves_def)
qed

section \<open>Join soundness\<close>

text \<open>
  Claim C1. In a run that ends without an exception, every row of \<^verbatim>\<open>songplays\<close>
  with a non-null \<^verbatim>\<open>song_id\<close> and \<^verbatim>\<open>artist_id\<close> comes from an activity
  record with page \<^verbatim>\<open>NextSong\<close>, a row of the stored \<^verbatim>\<open>songs\<close> table and
  a row of the stored \<^verbatim>\<open>artists\<close> table with the same \<^verbatim>\<open>artist_id\<close>, such
  that the song's title is the record's \<^verbatim>\<open>song\<close>, the artist's name is its
  \<^verbatim>\<open>artist\<close> and the song's duration is its \<^verbatim>\<open>length\<close>: equal values, none
  of them null, with no normalisation.
\<close>

theorem songplays_join_sound:
  assumes "main tz st = Inr st'"
    and "r \<in> set (songplays_of st')"
    and "sp_song_id r \<noteq> None" and "sp_artist_id r \<noteq> None"
  shows "\<exists>l \<in> set (log_of st). \<exists>s \<in> set (songs_of st'). \<exists>a \<in> set (artists_of st').
           l_page l = Some ''NextSong''
         \<and> (\<exists>t. l_ts l = Some t \<and> sp_start_time r = t div 1000)
         \<and> sp_user_id r = l_userId l \<and> sp_level r = l_level l
         \<and> sp_session_id r = l_sessionId l \<and> sp_location r = l_location l
         \<and> sp_user_agent r = l_userAgent l
         \<and> s_song_id s = sp_song_id r \<and> s_artist_id s = sp_artist_id r
         \<and> a_artist_id a = sp_artist_id r
         \<and> (\<exists>x. s_title s = Some x \<and> l_song l = Some x)
         \<and> (\<exists>x. a_name a = Some x \<and> l_artist l = Some x)
         \<and> (\<exists>x. s_duration s = Some x \<and> l_length l = Some x)"
proof -
  from main_run [OF assms(1)] obtain df
    where df: "with_columns tz (filter next_song (log_of st)) = Inr df"
      and st': "st' = job_result st (catalog_of st) (log_of st) df" by blast
  let ?songs = "songs_table (catalog_of st)" and ?artists = "artists_table (catalog_of st)"
  from assms(2) st' have "r \<in> set (songplays_table df (song_df ?songs ?artists))"
    by (simp add: job_result_tables)
  then obtain lr sa where lr: "lr \<in> set df" and sa: "sa \<in> set (song_df ?songs ?artists)"
    and cond: "conditions lr sa = Some True" and r: "r = songplays_columns lr sa"
    by (auto simp: songplays_table_def set_inner_join)
  from sa obtain s a where s: "s \<in> set ?songs" and a: "a \<in> set ?artists"
    and sa_eq: "sa = song_artist_columns s a"
    and key: "sql_eq (s_artist_id s) (a_artist_id a) = Some True"
    by (auto simp: song_df_def set_inner_join)
  from with_columns_row [OF df lr] have src: "lr_src lr \<in> set (filter next_song (log_of st))"
    and ts: "\<exists>t. l_ts (lr_src lr) = Some t \<and> lr_ts lr = t div 1000" by auto
  from src have l_in: "lr_src lr \<in> set (log_of st)" and page: "l_page (lr_src lr) = Some ''NextSong''"
    by (auto simp: next_song_page)
  from cond have
    c1: "\<exists>x. l_song (lr_src lr) = Some x \<and> sa_title sa = Some x" and
    c2: "\<exists>x. l_artist (lr_src lr) = Some x \<and> sa_artist_name sa = Some x" and
    c3: "\<exists>x. l_length (lr_src lr) = Some x \<and> sa_duration sa = Some x"
    by (auto simp: conditions_def sql_and_true sql_eq_true)
  from key have k: "a_artist_id a = s_artist_id s" by (auto simp: sql_eq_true)
  have fields: "sp_start_time r = lr_ts lr" "sp_user_id r = l_userId (lr_src lr)"
    "sp_level r = l_level (lr_src lr)" "sp_session_id r = l_sessionId (lr_src lr)"
    "sp_location r = l_location (lr_src lr)" "sp_user_agent r = l_userAgent (lr_src lr)"
    "sp_song_id r = s_song_id s" "sp_artist_id r = s_artist_id s"
    "sa_title sa = s_title s" "sa_artist_name sa = a_name a" "sa_duration sa = s_duration s"
    by (simp_all add: r sa_eq songplays_columns_def song_artist_columns_def)
  have s': "s \<in> set (songs_of st')" and a': "a \<in> set (artists_of st')"
    using s a st' by (simp_all add: job_result_tables)
  show ?thesis
  proof (intro bexI conjI)
    show "lr_src lr \<in> set (log_of st)" by (rule l_in)
    show "s \<in> set (songs_of st')" by (rule s')
    show "a \<in> set (artists_of st')" by (rule a')
    show "l_page (lr_src lr) = Some ''NextSong''" by (rule page)
    show "\<exists>t. l_ts (lr_src lr) = Some t \<and> sp_start_time r = t div 1000"
      using ts by (simp add: fields)
    show "\<exists>x. s_title s = Some x \<and> l_song (lr_src lr) = Some x"
      using c1 by (auto simp: fields)
    show "\<exists>x. a_name a = Some x \<and> l_artist (lr_src lr) = Some x"
      using c2 by (auto simp: fields)
    show "\<exists>x. s_duration s = Some x \<and> l_length (lr_src lr) = Some x"
      using c3 by (auto simp: fields)
  qed (simp_all add: fields k)
qed

theorem songplays_join_sound_witness:
  "main utc scenario = Inr scenario_done
   \<and> gob_songplay \<in> set (songplays_of scenario_done)
   \<and> sp_song_id gob_songplay \<noteq> None \<and> sp_artist_id gob_songplay \<noteq> None
   \<and> (\<exists>l \<in> set (log_of scenario). \<exists>s \<in> set (songs_of scenario_done).
        \<exists>a \<in> set (artists_of scenario_done).
           l_page l = Some ''NextSong''
         \<and> (\<exists>t. l_ts l = Some t \<and> sp_start_time gob_songplay = t div 1000)
         \<and> sp_user_id gob_songplay = l_userId l \<and> sp_level gob_songplay = l_level l
         \<and> sp_session_id gob_songplay = l_sessionId l
         \<and> sp_location gob_songplay = l_location l
         \<and> sp_user_agent gob_songplay = l_userAgent l
         \<and> s_song_id s = sp_song_id gob_songplay \<and> s_artist_id s = sp_artist_id gob_songplay
         \<and> a_artist_id a = sp_artist_id gob_songplay
         \<and> (\<exists>x. s_title s = Some x \<and> l_song l = Some x)
         \<and> (\<exists>x. a_name a = Some x \<and> l_artist l = Some x)
         \<and> (\<exists>x. s_duration s = Some x \<and> l_length l = Some x))"
proof -
  have h1: "main utc scenario = Inr scenario_done" by (rule scenario_run)
  have h2: "gob_songplay \<in> set (songplays_of scenario_done)"
    by (simp add: scenario_songplays_of)
  have h3: "sp_song_id gob_songplay \<noteq> None" by (simp add: gob_songplay_def)
  have h4: "sp_artist_id gob_songplay \<noteq> None" by (simp add: gob_songplay_def)
  from songplays_join_sound [OF h1 h2 h3 h4] h1 h2 h3 h4 show ?thesis by blast
qed

section \<open>Start times of song plays\<close>

text \<open>
  Claim C9. In a run that ends without an exception, every \<^verbatim>\<open>start_time\<close> of a row
  of \<^verbatim>\<open>songplays\<close> is the \<^verbatim>\<open>start_time\<close> of a row of the \<^verbatim>\<open>time\<close>
  table of the same run.
\<close>

theorem songplays_start_time_in_time:
  assumes "main tz st = Inr st'" and "r \<in> set (songplays_of st')"
  shows "\<exists>t \<in> set (time_of st'). t_start_time t = sp_start_time r"
proof -
  from main_run [OF assms(1)] obtain df
    where st': "st' = job_result st (catalog_of st) (log_of st) df" by blast
  from assms(2) obtain lr sa where lr: "lr \<in> set df" and r: "r = songplays_columns lr sa"
    by (auto simp: st' job_result_tables songplays_table_def set_inner_join)
  from lr have "time_columns lr \<in> set (time_of st')"
    by (simp add: st' job_result_tables time_table_def set_distinct_df)
  moreover have "t_start_time (time_columns lr) = sp_start_time r"
    by (simp add: r time_columns_def songplays_columns_def)
  ultimately show ?thesis by blast
qed

theorem songplays_start_time_in_time_witness:
  "main utc scenario = Inr scenario_done
   \<and> gob_songplay \<in> set (songplays_of scenario_done)
   \<and> (\<exists>t \<in> set (time_of scenario_done). t_start_time t = sp_start_time gob_songplay)"
proof -
  have h1: "main utc scenario = Inr scenario_done" by (rule scenario_run)
  have h2: "gob_songplay \<in> set (songplays_of scenario_done)"
    by (simp add: scenario_songplays_of)
  from songplays_start_time_in_time [OF h1 h2] h1 h2 show ?thesis by blast
qed

section \<open>The page filter\<close>

text \<open>
  Claim C5. In a run that ends without an exception, every row of \<^verbatim>\<open>users\<close>,
  \<^verbatim>\<open>time\<close> and \<^verbatim>\<open>songplays\<close> comes from an activity record whose page is
  \<^verbatim>\<open>NextSong\<close>; and the records with another page contribute nothing: a log
  that has the columns the program names and the same \<^verbatim>\<open>NextSong\<close> records, in
  the same order, gives the same three tables.
\<close>

theorem next_song_only:
  assumes "main tz st = Inr st'"
  shows "(\<forall>u \<in> set (users_of st'). \<exists>l \<in> set (log_of st).
            l_page l = Some ''NextSong'' \<and> u = users_columns l)
       \<and> (\<forall>t \<in> set (time_of st'). \<exists>l \<in> set (log_of st).
            l_page l = Some ''NextSong''
            \<and> (\<exists>ms. l_ts l = Some ms \<and> t_start_time t = ms div 1000))
       \<and> (\<forall>r \<in> set (songplays_of st'). \<exists>l \<in> set (log_of st).
            l_page l = Some ''NextSong''
            \<and> (\<exists>ms. l_ts l = Some ms \<and> sp_start_time r = ms div 1000)
            \<and> sp_user_id r = l_userId l \<and> sp_level r = l_level l
            \<and> sp_session_id r = l_sessionId l \<and> sp_location r = l_location l
            \<and> sp_user_agent r = l_userAgent l)
       \<and> (\<forall>docs'. resolves (log_data_columns docs') log_data_used
              \<and> filter next_song (map log_data_row docs') = filter next_song (log_of st) \<longrightarrow>
            (\<exists>st''. main tz (st\<lparr>files := (files st)
                         (path_join input_data ''log_data'' \<mapsto> LogData docs')\<rparr>) = Inr st''
                 \<and> users_of st'' = users_of st' \<and> time_of st'' = time_of st'
                 \<and> songplays_of st'' = songplays_of st'))"
proof -
  from main_run [OF assms] obtain df
    where df: "with_columns tz (filter next_song (log_of st)) = Inr df"
      and cat: "files st (path_join input_data ''song_data'') = Some (SongData (catalog_docs st))"
      and ccols: "resolves (catalog_columns st) song_data_used"
      and st': "st' = job_result st (catalog_of st) (log_of st) df" by blast
  have row: "\<exists>l \<in> set (log_of st). l = lr_src lr \<and> l_page l = Some ''NextSong''
                \<and> (\<exists>ms. l_ts l = Some ms \<and> lr_ts lr = ms div 1000)"
    if "lr \<in> set df" for lr
    using with_columns_row [OF df that] by (auto simp: next_song_page)
  have users: "\<forall>u \<in> set (users_of st'). \<exists>l \<in> set (log_of st).
            l_page l = Some ''NextSong'' \<and> u = users_columns l"
    by (auto simp: st' job_result_tables users_table_def set_distinct_df next_song_page)
  have time: "\<forall>t \<in> set (time_of st'). \<exists>l \<in> set (log_of st).
            l_page l = Some ''NextSong''
            \<and> (\<exists>ms. l_ts l = Some ms \<and> t_start_time t = ms div 1000)"
  proof
    fix t assume "t \<in> set (time_of st')"
    then obtain lr where lr: "lr \<in> set df" and t: "t = time_columns lr"
      by (auto simp: st' job_result_tables time_table_def set_distinct_df)
    from row [OF lr] show "\<exists>l \<in> set (log_of st). l_page l = Some ''NextSong''
            \<and> (\<exists>ms. l_ts l = Some ms \<and> t_start_time t = ms div 1000)"
      by (auto simp: t time_columns_def)
  qed
  have plays: "\<forall>r \<in> set (songplays_of st'). \<exists>l \<in> set (log_of st).
            l_page l = Some ''NextSong''
            \<and> (\<exists>ms. l_ts l = Some ms \<and> sp_start_time r = ms div 1000)
            \<and> sp_user_id r = l_userId l \<and> sp_level r = l_level l
            \<and> sp_session_id r = l_sessionId l \<and> sp_location r = l_location l
            \<and> sp_user_agent r = l_userAgent l"
  proof
    fix r assume "r \<in> set (songplays_of st')"
    then obtain lr sa where lr: "lr \<in> set df" and r: "r = songplays_columns lr sa"
      by (auto simp: st' job_result_tables songplays_table_def set_inner_join)
    from row [OF lr] show "\<exists>l \<in> set (log_of st).
            l_page l = Some ''NextSong''
            \<and> (\<exists>ms. l_ts l = Some ms \<and> sp_start_time r = ms div 1000)
            \<and> sp_user_id r = l_userId l \<and> sp_level r = l_level l
            \<and> sp_session_id r = l_sessionId l \<and> sp_location r = l_location l
            \<and> sp_user_agent r = l_userAgent l"
      by (auto simp: r songplays_columns_def)
  qed
  have other: "\<forall>docs'. resolves (log_data_columns docs') log_data_used
              \<and> filter next_song (map log_data_row docs') = filter next_song (log_of st) \<longrightarrow>
            (\<exists>st''. main tz (st\<lparr>files := (files st)
                         (path_join input_data ''log_data'' \<mapsto> LogData docs')\<rparr>) = Inr st''
                 \<and> users_of st'' = users_of st' \<and> time_of st'' = time_of st'
                 \<and> songplays_of st'' = songplays_of st')"
  proof (intro allI impI, elim conjE)
    fix docs' assume cols': "resolves (log_data_columns docs') log_data_used"
      and eq: "filter next_song (map log_data_row docs') = filter next_song (log_of st)"
    let ?st = "st\<lparr>files := (files st)(path_join input_data ''log_data'' \<mapsto> LogData docs')\<rparr>"
    have "main tz ?st
            = Inr (job_result ?st (map song_data_row (catalog_docs st))
                     (map log_data_row docs') df)"
      using cat ccols cols'
      by (intro main_eval) (simp_all add: paths eq df catalog_columns_def)
    then show "\<exists>st''. main tz ?st = Inr st''
                 \<and> users_of st'' = users_of st' \<and> time_of st'' = time_of st'
                 \<and> songplays_of st'' = songplays_of st'"
      by (simp add: st' job_result_tables eq catalog_of_def)
  qed
  from users time plays other show ?thesis by (intro conjI)
qed

theorem next_song_only_witness:
  "main utc scenario = Inr scenario_done
   \<and> users_columns gob_play \<in> set (users_of scenario_done)
   \<and> (\<exists>l \<in> set (log_of scenario).
         l_page l = Some ''NextSong'' \<and> users_columns gob_play = users_columns l)
   \<and> hd (time_of scenario_done) \<in> set (time_of scenario_done)
   \<and> (\<exists>l \<in> set (log_of scenario). l_page l = Some ''NextSong''
         \<and> (\<exists>ms. l_ts l = Some ms \<and> t_start_time (hd (time_of scenario_done)) = ms div 1000))
   \<and> gob_songplay \<in> set (songplays_of scenario_done)
   \<and> (\<exists>l \<in> set (log_of scenario). l_page l = Some ''NextSong''
         \<and> (\<exists>ms. l_ts l = Some ms \<and> sp_start_time gob_songplay = ms div 1000)
         \<and> sp_user_id gob_songplay = l_userId l \<and> sp_level gob_songplay = l_level l
         \<and> sp_session_id gob_songplay = l_sessionId l
         \<and> sp_location gob_songplay = l_location l
         \<and> sp_user_agent gob_songplay = l_userAgent l)
   \<and> resolves (log_data_columns (map log_doc_of [home_visit, gob_play])) log_data_used
   \<and> filter next_song (map log_data_row (map log_doc_of [home_visit, gob_play]))
       = filter next_song (log_of scenario)
   \<and> (\<exists>st''. main utc (scenario\<lparr>files := (files scenario)
                  (path_join input_data ''log_data'' \<mapsto>
                     LogData (map log_doc_of [home_visit, gob_play]))\<rparr>)
                = Inr st''
          \<and> users_of st'' = users_of scenario_done \<and> time_of st'' = time_of scenario_done
          \<and> songplays_of st'' = songplays_of scenario_done)"
proof -
  have h1: "main utc scenario = Inr scenario_done" by (rule scenario_run)
  have h2: "users_columns gob_play \<in> set (users_of scenario_done)"
    by (simp add: scenario_users)
  have h3: "hd (time_of scenario_done) \<in> set (time_of scenario_done)"
    by (simp add: scenario_time scenario_rows_def)
  have h4: "gob_songplay \<in> set (songplays_of scenario_done)"
    by (simp add: scenario_songplays_of)
  have h5: "filter next_song (map log_data_row (map log_doc_of [home_visit, gob_play]))
       = filter next_song (log_of scenario)"
    unfolding rows_of_docs
    by (simp add: scenario_tables next_song_page home_visit_def gob_play_def)
  have h6: "resolves (log_data_columns (map log_doc_of [home_visit, gob_play])) log_data_used"
    using log_columns_of_docs [of "[home_visit, gob_play]"] by simp
  note all = next_song_only [OF h1]
  from all h2 have c2: "\<exists>l \<in> set (log_of scenario).
         l_page l = Some ''NextSong'' \<and> users_columns gob_play = users_columns l" by blast
  from all h3 have c3: "\<exists>l \<in> set (log_of scenario). l_page l = Some ''NextSong''
         \<and> (\<exists>ms. l_ts l = Some ms \<and> t_start_time (hd (time_of scenario_done)) = ms div 1000)"
    by blast
  from all h4 have c4: "\<exists>l \<in> set (log_of scenario). l_page l = Some ''NextSong''
         \<and> (\<exists>ms. l_ts l = Some ms \<and> sp_start_time gob_songplay = ms div 1000)
         \<and> sp_user_id gob_songplay = l_userId l \<and> sp_level gob_songplay = l_level l
         \<and> sp_session_id gob_songplay = l_sessionId l
         \<and> sp_location gob_songplay = l_location l
         \<and> sp_user_agent gob_songplay = l_userAgent l" by blast
  from all h5 h6 have c5: "\<exists>st''. main utc (scenario\<lparr>files := (files scenario)
                  (path_join input_data ''log_data'' \<mapsto>
                     LogData (map log_doc_of [home_visit, gob_play]))\<rparr>)
                = Inr st''
          \<and> users_of st'' = users_of scenario_done \<and> time_of st'' = time_of scenario_done
          \<and> songplays_of st'' = songplays_of scenario_done" by blast
  from h1 h2 c2 h3 c3 h4 c4 h6 h5 c5 show ?thesis by (intro conjI)
qed

section \<open>The end-to-end scenario\<close>

text \<open>
  Claim C2, as stated, fails: the two documents of the scenario give no
  \<^verbatim>\<open>artist_location\<close>, \<^verbatim>\<open>artist_latitude\<close> or \<^verbatim>\<open>artist_longitude\<close>, and
  no \<^verbatim>\<open>firstName\<close>, \<^verbatim>\<open>lastName\<close>, \<^verbatim>\<open>gender\<close>, \<^verbatim>\<open>location\<close> or
  \<^verbatim>\<open>userAgent\<close>, so the frames read from them have no such columns. The select of
  lines 60 to 64 raises, and the job ends before it reads the log. With a catalog
  document that gives every key, the select of lines 95 to 99 raises. No
  \<^verbatim>\<open>songplays\<close> is written.
\<close>

theorem end_to_end_as_written_counterexample:
  "catalog_of as_written = [gob_song] \<and> log_of as_written = [gob_play]
   \<and> catalog_columns as_written
       = [''song_id'', ''title'', ''artist_id'', ''year'', ''duration'', ''artist_name'']
   \<and> main utc as_written = Inl AnalysisException
   \<and> catalog_of log_as_written = [gob_song] \<and> log_of log_as_written = [gob_play]
   \<and> log_columns log_as_written
       = [''userId'', ''level'', ''page'', ''ts'', ''song'', ''artist'', ''length'',
          ''sessionId'']
   \<and> main utc log_as_written = Inl AnalysisException"
  using as_written_inputs as_written_columns as_written_run log_as_written_run
  by (intro conjI)

text \<open>
  Claim C2, amended. From a catalog of one record with the scenario's \<^verbatim>\<open>song_id\<close>,
  title, \<^verbatim>\<open>artist_id\<close>, artist name, year and duration, and a log of one record
  with the scenario's page, song, artist, length, \<^verbatim>\<open>userId\<close>, \<^verbatim>\<open>ts\<close>,
  \<^verbatim>\<open>sessionId\<close> and level, where the two documents also give the other columns
  the program names, with any value or null, the job ends without an exception and
  \<^verbatim>\<open>songplays\<close> holds exactly one row, with \<^verbatim>\<open>user_id\<close> 15, the catalog
  record's \<^verbatim>\<open>song_id\<close> and \<^verbatim>\<open>artist_id\<close>, level paid and
  \<^verbatim>\<open>start_time\<close> 1541105830. The host zone is arbitrary, as long as its offset at
  that instant is at most a day.
\<close>

theorem end_to_end_scenario:
  assumes cat: "catalog_of st = [c]" and logs: "log_of st = [l]"
    and cols: "resolves (catalog_columns st) song_data_used"
      "resolves (log_columns st) log_data_used"
    and c: "c_song_id c = Some ''SOSKICX12A6D4F9F3E''" "c_title c = Some ''Face the Ashes''"
      "c_artist_id c = Some ''ARC1IHZ1187FB4E920''" "c_artist_name c = Some ''Gob''"
      "c_year c = Some 2007" "c_duration c = Some 209.60934"
    and l: "l_page l = Some ''NextSong''" "l_song l = Some ''Face the Ashes''"
      "l_artist l = Some ''Gob''" "l_length l = Some 209.60934" "l_userId l = Some ''15''"
      "l_ts l = Some 1541105830796" "l_sessionId l = Some 818" "l_level l = Some ''paid''"
    and tz: "\<bar>tz 1541105830\<bar> \<le> 86400"
  shows "\<exists>st' r. main tz st = Inr st' \<and> songplays_of st' = [r]
           \<and> sp_user_id r = Some ''15'' \<and> sp_song_id r = Some ''SOSKICX12A6D4F9F3E''
           \<and> sp_artist_id r = Some ''ARC1IHZ1187FB4E920'' \<and> sp_level r = Some ''paid''
           \<and> sp_start_time r = 1541105830"
proof -
  let ?row = "\<lparr>lr_src = l, lr_ts = 1541105830, lr_datetime = 1541105830 + tz 1541105830\<rparr>"
  let ?sa = "song_artist_columns (songs_columns c) (artists_columns c)"
  from tz have "- 86400 \<le> tz 1541105830" and "tz 1541105830 \<le> 86400" by linarith+
  then have dt: "get_datetime tz 1541105830 = Inr (1541105830 + tz 1541105830)"
    by (simp add: get_datetime_def min_datetime_def max_datetime_def)
  have df: "with_columns tz (filter next_song [l]) = Inr [?row]"
    using l dt by (simp add: next_song_page get_timestamp_def)
  from cat have "catalog_docs st \<noteq> []" by (auto simp: catalog_of_def)
  note f1 = catalog_docs_files [OF this]
  from logs have "log_docs st \<noteq> []" by (auto simp: log_of_def)
  note f2 = log_docs_files [OF this]
  have "main tz st = Inr (job_result st (map song_data_row (catalog_docs st))
                            (map log_data_row (log_docs st)) [?row])"
    using cols df logs
    by (intro main_eval [OF f1 _ f2]) (simp_all add: catalog_columns_def log_columns_def log_of_def)
  then have run: "main tz st = Inr (job_result st [c] [l] [?row])"
    using cat logs by (simp add: catalog_of_def log_of_def)
  have sdf: "song_df (songs_table [c]) (artists_table [c]) = [?sa]"
    using c by (simp add: song_df_def songs_table_def artists_table_def distinct_df_def
        inner_join_def is_true_def songs_columns_def artists_columns_def)
  have cond: "conditions ?row ?sa = Some True"
    using c l by (simp add: conditions_def song_artist_columns_def songs_columns_def
        artists_columns_def)
  have plays: "songplays_of (job_result st [c] [l] [?row]) = [songplays_columns ?row ?sa]"
    using cond by (simp add: job_result_tables sdf songplays_table_def inner_join_def is_true_def)
  have fields: "sp_user_id (songplays_columns ?row ?sa) = Some ''15''"
    "sp_song_id (songplays_columns ?row ?sa) = Some ''SOSKICX12A6D4F9F3E''"
    "sp_artist_id (songplays_columns ?row ?sa) = Some ''ARC1IHZ1187FB4E920''"
    "sp_level (songplays_columns ?row ?sa) = Some ''paid''"
    "sp_start_time (songplays_columns ?row ?sa) = 1541105830"
    using c l by (simp_all add: songplays_columns_def song_artist_columns_def songs_columns_def)
  from run plays fields show ?thesis by blast
qed

theorem end_to_end_scenario_witness:
  "catalog_of scenario = [gob_song] \<and> log_of scenario = [gob_play]
   \<and> resolves (catalog_columns scenario) song_data_used
   \<and> resolves (log_columns scenario) log_data_used
   \<and> \<bar>utc 1541105830\<bar> \<le> 86400
   \<and> (\<exists>st' r. main utc scenario = Inr st' \<and> songplays_of st' = [r]
           \<and> sp_user_id r = Some ''15'' \<and> sp_song_id r = Some ''SOSKICX12A6D4F9F3E''
           \<and> sp_artist_id r = Some ''ARC1IHZ1187FB4E920'' \<and> sp_level r = Some ''paid''
           \<and> sp_start_time r = 1541105830)"
proof -
  have h1: "catalog_of scenario = [gob_song]" and h2: "log_of scenario = [gob_play]"
    by (simp_all add: scenario_def store_of_inputs)
  have h3: "\<bar>utc 1541105830\<bar> \<le> 86400" by (simp add: utc_def fixed_zone_def)
  have h4: "resolves (catalog_columns scenario) song_data_used"
    using song_columns_of_docs [of "[gob_song]"]
    by (simp add: catalog_columns_def catalog_docs_def scenario_def store_of_def paths)
  have h5: "resolves (log_columns scenario) log_data_used"
    using log_columns_of_docs [of "[gob_play]"]
    by (simp add: log_columns_def log_docs_def scenario_def store_of_def paths)
  have "\<exists>st' r. main utc scenario = Inr st' \<and> songplays_of st' = [r]
           \<and> sp_user_id r = Some ''15'' \<and> sp_song_id r = Some ''SOSKICX12A6D4F9F3E''
           \<and> sp_artist_id r = Some ''ARC1IHZ1187FB4E920'' \<and> sp_level r = Some ''paid''
           \<and> sp_start_time r = 1541105830"
    by (rule end_to_end_scenario [of scenario gob_song gob_play utc, OF h1 h2 h4 h5])
      (simp_all add: gob_song_def gob_play_def h3)
  with h1 h2 h4 h5 h3 show ?thesis by (intro conjI)
qed

section \<open>Seconds from milliseconds\<close>

text \<open>
  Claim C3, as stated, fails: for a timestamp before the epoch the \<^verbatim>\<open>start_time\<close> is
  not the quotient truncated toward zero. The log of \<open>early\<close> holds one
  \<^verbatim>\<open>NextSong\<close> record with \<^verbatim>\<open>ts\<close> -1; its \<^verbatim>\<open>start_time\<close> is -1, and
  truncation toward zero gives 0.
\<close>

theorem truncation_counterexample:
  "log_of early = [early_play] \<and> l_page early_play = Some ''NextSong''
   \<and> l_ts early_play = Some (- 1) \<and> main utc early = Inr early_done
   \<and> map t_start_time (time_of early_done) = [- 1] \<and> truncate_div (- 1) 1000 = 0"
proof (intro conjI)
  show "log_of early = [early_play]" by (simp add: early_def store_of_inputs)
  show "l_page early_play = Some ''NextSong''" by (simp add: early_play_def gob_play_def)
  show "l_ts early_play = Some (- 1)" by (simp add: early_play_def)
  show "main utc early = Inr early_done" by (rule early_run)
  show "map t_start_time (time_of early_done) = [- 1]"
    by (simp add: early_done_def job_result_tables time_table_def distinct_df_def
        time_columns_def)
  show "truncate_div (- 1) 1000 = 0" by (simp add: truncate_div_def)
qed

text \<open>
  Claim C3, amended. In a run that ends without an exception, every activity record with
  page \<^verbatim>\<open>NextSong\<close> has a timestamp \<open>ms\<close> and a row of \<^verbatim>\<open>time\<close> whose
  \<^verbatim>\<open>start_time\<close> is the floor of \<open>ms / 1000\<close>: the integer \<open>s\<close> with
  \<open>1000 s \<le> ms < 1000 s + 1000\<close>. For \<open>ms\<close> that is not negative this is the quotient
  truncated toward zero. For 1541105830796 it is 1541105830.
\<close>

theorem timestamp_floor:
  assumes "main tz st = Inr st'" and "l \<in> set (log_of st)" and "l_page l = Some ''NextSong''"
  shows "(\<exists>ms. l_ts l = Some ms
          \<and> (\<exists>t \<in> set (time_of st'). 1000 * t_start_time t \<le> ms
                \<and> ms < 1000 * t_start_time t + 1000
                \<and> (0 \<le> ms \<longrightarrow> t_start_time t = truncate_div ms 1000)))
       \<and> get_timestamp (Some 1541105830796) = Inr 1541105830"
proof -
  from time_row_of_record [OF assms] obtain ms lr where ms: "l_ts l = Some ms"
    and t: "time_columns lr \<in> set (time_of st')" and s: "lr_ts lr = ms div 1000" by blast
  have st: "t_start_time (time_columns lr) = ms div 1000" by (simp add: time_columns_def s)
  have "1000 * (ms div 1000) \<le> ms" and "ms < 1000 * (ms div 1000) + 1000" by presburger+
  with ms t st show ?thesis
    by (auto simp: truncate_div_nonneg get_timestamp_def intro!: bexI [of _ "time_columns lr"])
qed

theorem timestamp_floor_witness:
  "main utc scenario = Inr scenario_done \<and> gob_play \<in> set (log_of scenario)
   \<and> l_page gob_play = Some ''NextSong'' \<and> l_ts gob_play = Some 1541105830796
   \<and> (\<exists>t \<in> set (time_of scenario_done). 1000 * t_start_time t \<le> 1541105830796
        \<and> 1541105830796 < 1000 * t_start_time t + 1000
        \<and> t_start_time t = truncate_div 1541105830796 1000)
   \<and> get_timestamp (Some 1541105830796) = Inr 1541105830"
proof -
  have h1: "main utc scenario = Inr scenario_done" by (rule scenario_run)
  have h2: "gob_play \<in> set (log_of scenario)" by (simp add: scenario_tables)
  have h3: "l_page gob_play = Some ''NextSong''" by (simp add: gob_play_def)
  have h4: "l_ts gob_play = Some 1541105830796" by (simp add: gob_play_def)
  from timestamp_floor [OF h1 h2 h3] h1 h2 h3 h4 show ?thesis by auto
qed

section \<open>Uniqueness of keys\<close>

text \<open>
  Claim C4, as stated, fails for \<^verbatim>\<open>songs\<close> and \<^verbatim>\<open>artists\<close>:
  \<^verbatim>\<open>distinct()\<close> drops a row only when all its columns repeat. The catalog of
  \<open>dup\<close> holds two records with one \<^verbatim>\<open>song_id\<close> and one \<^verbatim>\<open>artist_id\<close>
  that differ in title and artist location; both tables keep two rows with the same key.
\<close>

theorem unique_ids_counterexample:
  "catalog_of dup = [gob_song, gob_song_live] \<and> main utc dup = Inr dup_done
   \<and> map s_song_id (songs_of dup_done)
       = [Some ''SOSKICX12A6D4F9F3E'', Some ''SOSKICX12A6D4F9F3E'']
   \<and> map a_artist_id (artists_of dup_done)
       = [Some ''ARC1IHZ1187FB4E920'', Some ''ARC1IHZ1187FB4E920'']
   \<and> \<not> distinct (map s_song_id (songs_of dup_done))
   \<and> \<not> distinct (map a_artist_id (artists_of dup_done))"
proof -
  have songs: "map s_song_id (songs_of dup_done)
       = [Some ''SOSKICX12A6D4F9F3E'', Some ''SOSKICX12A6D4F9F3E'']"
    by (simp add: dup_done_def job_result_tables songs_table_def distinct_df_def
        songs_columns_def gob_song_live_def gob_song_def)
  have artists: "map a_artist_id (artists_of dup_done)
       = [Some ''ARC1IHZ1187FB4E920'', Some ''ARC1IHZ1187FB4E920'']"
    by (simp add: dup_done_def job_result_tables artists_table_def distinct_df_def
        artists_columns_def gob_song_live_def gob_song_def)
  have "catalog_of dup = [gob_song, gob_song_live]" by (simp add: dup_def store_of_inputs)
  with dup_run songs artists show ?thesis by simp
qed

text \<open>
  Claim C4, amended. In a run that ends without an exception, the rows of
  \<^verbatim>\<open>songs\<close> are pairwise distinct as whole rows, and so are the rows of
  \<^verbatim>\<open>artists\<close>; the \<^verbatim>\<open>start_time\<close> values of \<^verbatim>\<open>time\<close> are pairwise
  distinct. The \<^verbatim>\<open>song_id\<close> values of \<^verbatim>\<open>songs\<close> are pairwise distinct when
  no two catalog records with the same \<^verbatim>\<open>song_id\<close> differ in another column of
  \<^verbatim>\<open>songs\<close>, and likewise for \<^verbatim>\<open>artist_id\<close> and \<^verbatim>\<open>artists\<close>.
\<close>

theorem tables_distinct:
  assumes "main tz st = Inr st'"
  shows "distinct (songs_of st') \<and> distinct (artists_of st')
       \<and> distinct (map t_start_time (time_of st'))
       \<and> ((\<forall>c \<in> set (catalog_of st). \<forall>c' \<in> set (catalog_of st).
              c_song_id c = c_song_id c' \<longrightarrow> songs_columns c = songs_columns c')
            \<longrightarrow> distinct (map s_song_id (songs_of st')))
       \<and> ((\<forall>c \<in> set (catalog_of st). \<forall>c' \<in> set (catalog_of st).
              c_artist_id c = c_artist_id c' \<longrightarrow> artists_columns c = artists_columns c')
            \<longrightarrow> distinct (map a_artist_id (artists_of st')))"
proof -
  from main_run [OF assms] obtain df
    where df: "with_columns tz (filter next_song (log_of st)) = Inr df"
      and st': "st' = job_result st (catalog_of st) (log_of st) df" by blast
  have same: "time_columns x = time_columns y"
    if "x \<in> set df" "y \<in> set df" "lr_ts x = lr_ts y" for x y
    using with_columns_row [OF df that(1)] with_columns_row [OF df that(2)] that(3)
    by (simp add: time_columns_def)
  have time: "distinct (map t_start_time (time_of st'))"
    unfolding st' job_result_tables time_table_def
  proof (rule distinct_key, intro ballI impI)
    fix x y assume x: "x \<in> set df" and y: "y \<in> set df"
      and "t_start_time (time_columns x) = t_start_time (time_columns y)"
    then have "lr_ts x = lr_ts y" by (simp add: time_columns_def)
    with x y show "time_columns x = time_columns y" by (rule same)
  qed
  have songs: "distinct (map s_song_id (songs_of st'))"
    if "\<forall>c \<in> set (catalog_of st). \<forall>c' \<in> set (catalog_of st).
              c_song_id c = c_song_id c' \<longrightarrow> songs_columns c = songs_columns c'"
    unfolding st' job_result_tables songs_table_def
  proof (rule distinct_key, intro ballI impI)
    fix x y assume x: "x \<in> set (catalog_of st)" and y: "y \<in> set (catalog_of st)"
      and "s_song_id (songs_columns x) = s_song_id (songs_columns y)"
    then have "c_song_id x = c_song_id y" by (simp add: songs_columns_def)
    with that x y show "songs_columns x = songs_columns y" by blast
  qed
  have artists: "distinct (map a_artist_id (artists_of st'))"
    if "\<forall>c \<in> set (catalog_of st). \<forall>c' \<in> set (catalog_of st).
              c_artist_id c = c_artist_id c' \<longrightarrow> artists_columns c = artists_columns c'"
    unfolding st' job_result_tables artists_table_def
  proof (rule distinct_key, intro ballI impI)
    fix x y assume x: "x \<in> set (catalog_of st)" and y: "y \<in> set (catalog_of st)"
      and "a_artist_id (artists_columns x) = a_artist_id (artists_columns y)"
    then have "c_artist_id x = c_artist_id y" by (simp add: artists_columns_def)
    with that x y show "artists_columns x = artists_columns y" by blast
  qed
  have "distinct (songs_of st')" "distinct (artists_of st')"
    by (simp_all add: st' job_result_tables songs_table_def artists_table_def
        distinct_distinct_df)
  with time songs artists show ?thesis by (intro conjI impI)
qed

theorem tables_distinct_witness:
  "main utc busy = Inr busy_done
   \<and> length (catalog_of busy) = 3 \<and> length (songs_of busy_done) = 2
   \<and> length (artists_of busy_done) = 1
   \<and> length (log_of busy) = 3 \<and> length (time_of busy_done) = 2
   \<and> distinct (songs_of busy_done) \<and> distinct (artists_of busy_done)
   \<and> distinct (map t_start_time (time_of busy_done))
   \<and> distinct (map s_song_id (songs_of busy_done))
   \<and> distinct (map a_artist_id (artists_of busy_done))"
proof -
  have h1: "main utc busy = Inr busy_done" by (rule busy_run)
  have h2: "\<forall>c \<in> set (catalog_of busy). \<forall>c' \<in> set (catalog_of busy).
              c_song_id c = c_song_id c' \<longrightarrow> songs_columns c = songs_columns c'"
    by (simp add: busy_inputs gob_song_reissue_def gob_song_def)
  have h3: "\<forall>c \<in> set (catalog_of busy). \<forall>c' \<in> set (catalog_of busy).
              c_artist_id c = c_artist_id c' \<longrightarrow> artists_columns c = artists_columns c'"
    by (simp add: busy_inputs artists_columns_def gob_song_reissue_def gob_song_def)
  have sizes: "length (catalog_of busy) = 3" "length (songs_of busy_done) = 2"
    "length (artists_of busy_done) = 1" "length (log_of busy) = 3"
    by (simp_all add: busy_inputs busy_songs busy_artists)
  have "length (map t_start_time (time_of busy_done)) = 2" by (simp only: busy_time) simp
  then have times: "length (time_of busy_done) = 2" by simp
  from tables_distinct [OF h1] h2 h3
  have "distinct (songs_of busy_done)" "distinct (artists_of busy_done)"
    "distinct (map t_start_time (time_of busy_done))"
    "distinct (map s_song_id (songs_of busy_done))"
    "distinct (map a_artist_id (artists_of busy_done))" by blast+
  with h1 sizes times show ?thesis by (intro conjI)
qed

section \<open>Calendar fields of the time table\<close>

text \<open>
  Claim C6, as stated, fails: \<^verbatim>\<open>datetime.fromtimestamp\<close> gives the local time of
  the host, so the fields depend on the host zone. On a host eight hours east of UTC the
  scenario's row of \<^verbatim>\<open>time\<close> has hour 4, day 2 and weekday Fri, while the UTC
  reading of the same instant, which a host on UTC produces, has hour 20, day 1 and
  weekday Thu.
\<close>

theorem utc_fields_counterexample:
  "main (fixed_zone 28800) scenario = Inr east_done
   \<and> time_of east_done =
       [\<lparr>t_start_time = 1541105830, t_hour = 4, t_day = 2, t_week = 44, t_month = 11,
         t_year = 2018, t_weekday = ''Fri''\<rparr>]
   \<and> hour 1541105830 = 20 \<and> dayofmonth 1541105830 = 1
   \<and> date_format_E 1541105830 = ''Thu''
   \<and> main utc scenario = Inr scenario_done
   \<and> time_of scenario_done =
       [\<lparr>t_start_time = 1541105830, t_hour = 20, t_day = 1, t_week = 44, t_month = 11,
         t_year = 2018, t_weekday = ''Thu''\<rparr>]"
proof (intro conjI)
  show "main (fixed_zone 28800) scenario = Inr east_done" by (rule east_run)
  show "time_of east_done =
       [\<lparr>t_start_time = 1541105830, t_hour = 4, t_day = 2, t_week = 44, t_month = 11,
         t_year = 2018, t_weekday = ''Fri''\<rparr>]"
    by (simp add: east_done_def job_result_tables time_table_def distinct_df_def
        time_columns_def calendar_east)
  show "main utc scenario = Inr scenario_done" by (rule scenario_run)
  show "time_of scenario_done =
       [\<lparr>t_start_time = 1541105830, t_hour = 20, t_day = 1, t_week = 44, t_month = 11,
         t_year = 2018, t_weekday = ''Thu''\<rparr>]"
    by (simp add: scenario_time scenario_rows_def time_columns_def calendar_scenario)
qed (simp_all add: calendar_scenario)

text \<open>
  Claim C6, amended. In a run that ends without an exception, every activity record with
  page \<^verbatim>\<open>NextSong\<close> has a row in \<^verbatim>\<open>time\<close>, and in every row of
  \<^verbatim>\<open>time\<close> the hour, day, week, month, year and weekday are the calendar fields
  of the local time of the host process at the instant \<^verbatim>\<open>start_time\<close>, that is of
  \<^verbatim>\<open>start_time\<close> plus the offset of the host zone at that instant. They are the
  fields of the UTC reading when that offset is 0.
\<close>

theorem time_fields_local:
  assumes "main tz st = Inr st'"
  shows "(\<forall>l \<in> set (log_of st). l_page l = Some ''NextSong'' \<longrightarrow>
            (\<exists>ms. l_ts l = Some ms
               \<and> (\<exists>t \<in> set (time_of st'). t_start_time t = ms div 1000)))
       \<and> (\<forall>t \<in> set (time_of st').
            t_hour t = hour (t_start_time t + tz (t_start_time t))
          \<and> t_day t = dayofmonth (t_start_time t + tz (t_start_time t))
          \<and> t_week t = weekofyear (t_start_time t + tz (t_start_time t))
          \<and> t_month t = month (t_start_time t + tz (t_start_time t))
          \<and> t_year t = year (t_start_time t + tz (t_start_time t))
          \<and> t_weekday t = date_format_E (t_start_time t + tz (t_start_time t))
          \<and> (tz (t_start_time t) = 0 \<longrightarrow>
                t_hour t = hour (t_start_time t)
              \<and> t_day t = dayofmonth (t_start_time t)
              \<and> t_week t = weekofyear (t_start_time t)
              \<and> t_month t = month (t_start_time t)
              \<and> t_year t = year (t_start_time t)
              \<and> t_weekday t = date_format_E (t_start_time t)))"
proof (intro conjI ballI impI)
  fix l assume "l \<in> set (log_of st)" and "l_page l = Some ''NextSong''"
  from time_row_of_record [OF assms this] obtain ms lr where "l_ts l = Some ms"
    and "time_columns lr \<in> set (time_of st')" and "lr_ts lr = ms div 1000" by blast
  moreover have "t_start_time (time_columns lr) = lr_ts lr" by (simp add: time_columns_def)
  ultimately show "\<exists>ms. l_ts l = Some ms
               \<and> (\<exists>t \<in> set (time_of st'). t_start_time t = ms div 1000)"
    by (metis (no_types, lifting))
next
  fix t assume t: "t \<in> set (time_of st')"
  from time_rows [OF assms t] obtain lr where eq: "t = time_columns lr"
    and dt: "lr_datetime lr = lr_ts lr + tz (lr_ts lr)" by blast
  have s: "t_start_time t = lr_ts lr" by (simp add: eq time_columns_def)
  show "t_hour t = hour (t_start_time t + tz (t_start_time t))"
    "t_day t = dayofmonth (t_start_time t + tz (t_start_time t))"
    "t_week t = weekofyear (t_start_time t + tz (t_start_time t))"
    "t_month t = month (t_start_time t + tz (t_start_time t))"
    "t_year t = year (t_start_time t + tz (t_start_time t))"
    "t_weekday t = date_format_E (t_start_time t + tz (t_start_time t))"
    unfolding s by (simp_all add: eq time_columns_def dt)
  assume z: "tz (t_start_time t) = 0"
  then have dt0: "lr_datetime lr = lr_ts lr" using dt s by simp
  show "t_hour t = hour (t_start_time t)" "t_day t = dayofmonth (t_start_time t)"
    "t_week t = weekofyear (t_start_time t)" "t_month t = month (t_start_time t)"
    "t_year t = year (t_start_time t)" "t_weekday t = date_format_E (t_start_time t)"
    unfolding s by (simp_all add: eq time_columns_def dt0)
qed

theorem time_fields_local_witness:
  "main utc scenario = Inr scenario_done
   \<and> gob_play \<in> set (log_of scenario) \<and> l_page gob_play = Some ''NextSong''
   \<and> (\<exists>ms. l_ts gob_play = Some ms
         \<and> (\<exists>t \<in> set (time_of scenario_done). t_start_time t = ms div 1000))
   \<and> hd (time_of scenario_done) \<in> set (time_of scenario_done)
   \<and> utc (t_start_time (hd (time_of scenario_done))) = 0
   \<and> t_hour (hd (time_of scenario_done)) = hour (t_start_time (hd (time_of scenario_done)))
   \<and> t_day (hd (time_of scenario_done))
       = dayofmonth (t_start_time (hd (time_of scenario_done)))
   \<and> t_week (hd (time_of scenario_done))
       = weekofyear (t_start_time (hd (time_of scenario_done)))
   \<and> t_month (hd (time_of scenario_done)) = month (t_start_time (hd (time_of scenario_done)))
   \<and> t_year (hd (time_of scenario_done)) = year (t_start_time (hd (time_of scenario_done)))
   \<and> t_weekday (hd (time_of scenario_done))
       = date_format_E (t_start_time (hd (time_of scenario_done)))"
proof -
  have h1: "main utc scenario = Inr scenario_done" by (rule scenario_run)
  have h2: "gob_play \<in> set (log_of scenario)" by (simp add: scenario_tables)
  have h3: "l_page gob_play = Some ''NextSong''" by (simp add: gob_play_def)
  have h4: "hd (time_of scenario_done) \<in> set (time_of scenario_done)"
    by (simp add: scenario_time scenario_rows_def)
  have h5: "utc (t_start_time (hd (time_of scenario_done))) = 0"
    by (simp add: utc_def fixed_zone_def)
  note fields = time_fields_local [OF h1]
  from fields h2 h3 have c1: "\<exists>ms. l_ts gob_play = Some ms
         \<and> (\<exists>t \<in> set (time_of scenario_done). t_start_time t = ms div 1000)" by blast
  from fields h4 h5 have c2:
    "t_hour (hd (time_of scenario_done)) = hour (t_start_time (hd (time_of scenario_done)))"
    "t_day (hd (time_of scenario_done))
       = dayofmonth (t_start_time (hd (time_of scenario_done)))"
    "t_week (hd (time_of scenario_done))
       = weekofyear (t_start_time (hd (time_of scenario_done)))"
    "t_month (hd (time_of scenario_done)) = month (t_start_time (hd (time_of scenario_done)))"
    "t_year (hd (time_of scenario_done)) = year (t_start_time (hd (time_of scenario_done)))"
    "t_weekday (hd (time_of scenario_done))
       = date_format_E (t_start_time (hd (time_of scenario_done)))"
    by blast+
  from h1 h2 h3 c1 h4 h5 c2 show ?thesis by (intro conjI)
qed

section \<open>Identifier of a song play\<close>

text \<open>
  Claim C7 is about the column \<^verbatim>\<open>songplays_id\<close> that line 163 means to add. Line
  161 ends in a backslash and line 162 is a comment, which ends the logical line, so
  line 163 does not belong to the assignment of \<^verbatim>\<open>songplays_table\<close> (Python
  rejects the indented line that follows). The rows of \<^verbatim>\<open>songplays\<close> are the
  ones selected on lines 150 to 161 and carry no identifier: a log that holds the
  scenario's record twice gives two equal rows.
\<close>

theorem songplays_rows_without_id:
  "log_of twice = [gob_play, gob_play] \<and> main utc twice = Inr twice_done
   \<and> songplays_of twice_done = [gob_songplay, gob_songplay]
   \<and> \<not> distinct (songplays_of twice_done)"
proof (intro conjI)
  show "log_of twice = [gob_play, gob_play]" by (simp add: twice_def store_of_inputs)
  show "main utc twice = Inr twice_done" by (rule twice_run)
  show "songplays_of twice_done = [gob_songplay, gob_songplay]" by (rule twice_songplays)
  show "\<not> distinct (songplays_of twice_done)" by (simp add: twice_songplays)
qed

section \<open>Order of the two pipelines\<close>

text \<open>
  Claim C8. If the catalog pipeline raises, the job ends with that exception and the
  activity pipeline does not run. Otherwise the catalog pipeline has written
  \<^verbatim>\<open>songs\<close> and \<^verbatim>\<open>artists\<close> under the output location when it returns, and
  the job goes on with the activity pipeline from the state it returned. The activity
  pipeline, from any state, reads \<^verbatim>\<open>songs\<close> and \<^verbatim>\<open>artists\<close> from the output
  location after it has written \<^verbatim>\<open>users\<close> and \<^verbatim>\<open>time\<close>, and
  \<^verbatim>\<open>songplays\<close> is derived from the two tables that the state holds there.
\<close>

theorem catalog_before_activity:
  "(\<forall>e. process_song_data input_data output_data st = Inl e \<longrightarrow> main tz st = Inl e)
   \<and> (\<forall>st1. process_song_data input_data output_data st = Inr st1 \<longrightarrow>
          main tz st = process_log_data tz input_data output_data st1
        \<and> trace st1 = trace st @
             [Read (path_join input_data ''song_data''),
              Write (path_join output_data ''songs''),
              Write (path_join output_data ''artists'')]
        \<and> songs_of st1 = songs_table (catalog_of st)
        \<and> artists_of st1 = artists_table (catalog_of st))
   \<and> (\<forall>st1 st'. process_log_data tz input_data output_data st1 = Inr st' \<longrightarrow>
          (\<exists>df. with_columns tz (filter next_song (log_of st1)) = Inr df
             \<and> trace st' = trace st1 @
                  [Read (path_join input_data ''log_data''),
                   Write (path_join output_data ''users''),
                   Write (path_join output_data ''time''),
                   Read (path_join output_data ''songs''),
                   Read (path_join output_data ''artists''),
                   Write (path_join output_data ''songplays'')]
             \<and> songplays_of st'
                 = songplays_table df (song_df (songs_of st1) (artists_of st1))))"
proof (intro conjI allI impI)
  fix e assume "process_song_data input_data output_data st = Inl e"
  then show "main tz st = Inl e" by (simp add: main_def)
next
  fix st1 assume s1: "process_song_data input_data output_data st = Inr st1"
  then show "main tz st = process_log_data tz input_data output_data st1"
    by (simp add: main_def)
  from song_data_elim [OF s1] obtain docs
    where docs: "files st (path_join input_data ''song_data'') = Some (SongData docs)"
      and cols: "resolves (song_data_columns docs) song_data_used" by blast
  define cat where "cat = map song_data_row docs"
  from docs have c: "catalog_of st = cat" by (simp add: catalog_of_def catalog_docs_def cat_def)
  from song_data_eval [OF docs cols] s1 have st1: "st1 = st\<lparr>files := (files st)
            (path_join output_data ''songs'' \<mapsto> SongsTable (songs_table cat),
             path_join output_data ''artists'' \<mapsto> ArtistsTable (artists_table cat)),
          trace := trace st @ [Read (path_join input_data ''song_data''),
           Write (path_join output_data ''songs''),
           Write (path_join output_data ''artists'')]\<rparr>" by (simp add: cat_def)
  show "trace st1 = trace st @
             [Read (path_join input_data ''song_data''),
              Write (path_join output_data ''songs''),
              Write (path_join output_data ''artists'')]"
    by (simp add: st1)
  show "songs_of st1 = songs_table (catalog_of st)"
    by (simp add: st1 c songs_of_def paths)
  show "artists_of st1 = artists_table (catalog_of st)"
    by (simp add: st1 c artists_of_def paths)
next
  fix st1 st' assume "process_log_data tz input_data output_data st1 = Inr st'"
  then show "\<exists>df. with_columns tz (filter next_song (log_of st1)) = Inr df
             \<and> trace st' = trace st1 @
                  [Read (path_join input_data ''log_data''),
                   Write (path_join output_data ''users''),
                   Write (path_join output_data ''time''),
                   Read (path_join output_data ''songs''),
                   Read (path_join output_data ''artists''),
                   Write (path_join output_data ''songplays'')]
             \<and> songplays_of st'
                 = songplays_table df (song_df (songs_of st1) (artists_of st1))"
    by (rule log_data_songplays)
qed

theorem catalog_before_activity_witness:
  "process_song_data input_data output_data empty_store = Inl AnalysisException
   \<and> main utc empty_store = Inl AnalysisException
   \<and> process_song_data input_data output_data scenario = Inr scenario_mid
   \<and> main utc scenario = process_log_data utc input_data output_data scenario_mid
   \<and> trace scenario_mid = trace scenario @
        [Read (path_join input_data ''song_data''),
         Write (path_join output_data ''songs''),
         Write (path_join output_data ''artists'')]
   \<and> songs_of scenario_mid = songs_table (catalog_of scenario)
   \<and> artists_of scenario_mid = artists_table (catalog_of scenario)
   \<and> process_log_data utc input_data output_data scenario_mid = Inr scenario_done
   \<and> (\<exists>df. with_columns utc (filter next_song (log_of scenario_mid)) = Inr df
         \<and> trace scenario_done = trace scenario_mid @
              [Read (path_join input_data ''log_data''),
               Write (path_join output_data ''users''),
               Write (path_join output_data ''time''),
               Read (path_join output_data ''songs''),
               Read (path_join output_data ''artists''),
               Write (path_join output_data ''songplays'')]
         \<and> songplays_of scenario_done
             = songplays_table df (song_df (songs_of scenario_mid) (artists_of scenario_mid)))"
proof -
  have h1: "process_song_data input_data output_data empty_store = Inl AnalysisException"
    by (rule empty_store_run)
  have h2: "process_song_data input_data output_data scenario = Inr scenario_mid"
    by (rule scenario_catalog_run)
  from catalog_before_activity [of empty_store utc] h1
  have c1: "main utc empty_store = Inl AnalysisException" by blast
  from catalog_before_activity [of scenario utc] h2
  have c2: "main utc scenario = process_log_data utc input_data output_data scenario_mid"
    "trace scenario_mid = trace scenario @
        [Read (path_join input_data ''song_data''),
         Write (path_join output_data ''songs''),
         Write (path_join output_data ''artists'')]"
    "songs_of scenario_mid = songs_table (catalog_of scenario)"
    "artists_of scenario_mid = artists_table (catalog_of scenario)" by blast+
  from c2(1) scenario_run
  have h3: "process_log_data utc input_data output_data scenario_mid = Inr scenario_done"
    by simp
  from catalog_before_activity [of scenario utc] h3
  have c3: "\<exists>df. with_columns utc (filter next_song (log_of scenario_mid)) = Inr df
         \<and> trace scenario_done = trace scenario_mid @
              [Read (path_join input_data ''log_data''),
               Write (path_join output_data ''users''),
               Write (path_join output_data ''time''),
               Read (path_join output_data ''songs''),
               Read (path_join output_data ''artists''),
               Write (path_join output_data ''songplays'')]
         \<and> songplays_of scenario_done
             = songplays_table df (song_df (songs_of scenario_mid) (artists_of scenario_mid))"
    by blast
  from h1 c1 h2 c2 h3 c3 show ?thesis by (intro conjI)
qed

section \<open>More than one song play for one record\<close>

text \<open>
  Claim C10. The catalog of \<open>reissue\<close> holds two records with different
  \<^verbatim>\<open>song_id\<close> and the same title, duration and artist name; the one activity
  record of the scenario gives two rows of \<^verbatim>\<open>songplays\<close>.
\<close>

theorem reissue_two_songplays:
  "catalog_of reissue = [gob_song, gob_song_reissue]
   \<and> c_song_id gob_song \<noteq> c_song_id gob_song_reissue
   \<and> c_title gob_song = c_title gob_song_reissue
   \<and> c_duration gob_song = c_duration gob_song_reissue
   \<and> c_artist_name gob_song = c_artist_name gob_song_reissue
   \<and> log_of reissue = [gob_play]
   \<and> main utc reissue = Inr reissue_done
   \<and> songplays_of reissue_done =
        [gob_songplay, gob_songplay\<lparr>sp_song_id := Some ''SOSKICX12A6D4F9F3F''\<rparr>]
   \<and> length (songplays_of reissue_done) = 2"
proof (intro conjI)
  show "main utc reissue = Inr reissue_done" by (rule reissue_run)
  show "songplays_of reissue_done =
        [gob_songplay, gob_songplay\<lparr>sp_song_id := Some ''SOSKICX12A6D4F9F3F''\<rparr>]"
    by (rule reissue_songplays)
  show "length (songplays_of reissue_done) = 2" by (simp add: reissue_songplays)
qed (simp_all add: reissue_def store_of_inputs gob_song_reissue_def gob_song_def)

end
